theory Spec2Isabelle
  imports Complex_Main "HOL-Library.Log_Nat"
begin

section \<open>Enumerations\<close>

text \<open>
  Modelled from the spec: the module \<open>src/enums.py\<close> that \<open>contract.py\<close> imports is not
  among the sources. The spec describes closed sets for contract kind, option direction
  (put/call/forward), position (long/short), barrier direction (up/down) and barrier
  activation (in/out); the members below are exactly the ones \<open>contract.py\<close> refers to.
  The source compares members with string literals (\<open>self._updown == 'UP'\<close>) and passes
  string literals where members are expected, so a member and the string of its name are
  the same object; such a comparison is equality with the member here.
\<close>

datatype ContractType =
  FORWARD | EUROPEANOPTION | AMERICANOPTION | EUROPEANDIGITALOPTION | ASIANOPTION |
  EUROPEANBARRIEROPTION

datatype PutCallFwd = PUT | CALL | FWD

datatype LongShort = LONG | SHORT

datatype UpDown = UP | DOWN

datatype InOut = IN | OUT

section \<open>Values and errors\<close>

text \<open>
  Prices, strikes and payoffs are real numbers, and the payoffs of the section on
  contracts compute in exact arithmetic: infinities and NaN of prices are outside the
  model. The properties that relate two runs of the same expression (round trip, sign
  symmetry) and the ones about zero do not depend on rounding. Where a payoff is compared
  with a decimal literal, the rounding of Python's floats decides: the section on binary64
  arithmetic gives the same methods with every operation rounded. The one infinity the
  source itself writes, the default barrier \<open>np.Inf\<close> of \<open>GenericContract\<close>, is a
  level of its own.
\<close>

datatype barrier_level = Level real | PosInf

text \<open>\<open>self._barrier <= price\<close> and \<open>self._barrier >= price\<close>.\<close>

fun barrier_le :: "barrier_level \<Rightarrow> real \<Rightarrow> bool" where
  "barrier_le (Level b) price = (b \<le> price)"
| "barrier_le PosInf price = False"

fun barrier_ge :: "barrier_level \<Rightarrow> real \<Rightarrow> bool" where
  "barrier_ge (Level b) price = (b \<ge> price)"
| "barrier_ge PosInf price = True"

text \<open>
  The argument of \<open>payoff\<close> is untyped in Python: callers pass one price to a vanilla
  contract and a list of prices to a path-dependent one.
\<close>

datatype price_input = Spot real | Prices "real list"

text \<open>
  \<open>TypeError msg\<close> is the exception of the three \<open>_raise_incorrect_*\<close> methods with its
  message. \<open>OperandTypeError\<close> is the \<open>TypeError\<close> the interpreter raises when a list is
  used in arithmetic with a number or a number is iterated. \<open>IndexError\<close> comes from
  \<open>prices_und[-1]\<close> on an empty list, \<open>StatisticsError\<close> from \<open>mean\<close> of one.
\<close>

datatype error = TypeError string | OperandTypeError | IndexError | StatisticsError

definition raise_incorrect_derivative_type :: "string \<Rightarrow> error" where
  "raise_incorrect_derivative_type cls =
     TypeError (''Derivative type of '' @ cls @ '' must be CALL or PUT'')"

definition raise_incorrect_barrier_updown_type :: "string \<Rightarrow> error" where
  "raise_incorrect_barrier_updown_type cls =
     TypeError (''Updown parameter of '' @ cls @ '' must be UP or DOWN'')"

definition raise_incorrect_barrier_inout_type :: "string \<Rightarrow> error" where
  "raise_incorrect_barrier_inout_type cls =
     TypeError (''Inout parameter of '' @ cls @ '' must be IN or OUT'')"

text \<open>\<open>statistics.mean\<close>: the arithmetic mean, \<open>StatisticsError\<close> on no data.\<close>

definition mean :: "real list \<Rightarrow> error + real" where
  "mean data = (if data = [] then Inl StatisticsError
                else Inr (sum_list data / of_nat (length data)))"

text \<open>\<open>prices_und[-1]\<close>.\<close>

definition last_price :: "real list \<Rightarrow> error + real" where
  "last_price prices_und = (if prices_und = [] then Inl IndexError else Inr (last prices_und))"

section \<open>Contracts\<close>

text \<open>
  The attributes \<open>Contract.__init__\<close> sets, and \<open>_contract\<close>, which every concrete class
  sets right after it. \<open>EuropeanBarrierContract\<close> and \<open>GenericContract\<close> add the barrier
  attributes; \<open>None\<close> is Python's \<open>None\<close>.
\<close>

record Contract =
  contract :: ContractType
  underlying :: string
  derivative_type :: PutCallFwd
  derivative_longshort :: LongShort
  ls :: int
  strike :: real
  expiry :: real
  num_mon :: int

record BarrierContract = Contract +
  barrier :: barrier_level
  updown :: "UpDown option"
  inout :: "InOut option"

text \<open>
  \<open>Contract.__init__(und, dtype, longshort, strk, exp, num_mon)\<close> followed by the
  assignment \<open>self._contract = kind\<close> of the subclass.
\<close>

definition Contract_init ::
  "ContractType \<Rightarrow> string \<Rightarrow> PutCallFwd \<Rightarrow> LongShort \<Rightarrow> real \<Rightarrow> real \<Rightarrow> int \<Rightarrow> Contract" where
  "Contract_init kind und dtype longshort strk exp' n =
     \<lparr> contract = kind, underlying = und, derivative_type = dtype,
       derivative_longshort = longshort,
       ls = (if longshort = LONG then 1 else - 1),
       strike = strk, expiry = exp', num_mon = n \<rparr>"

subsection \<open>Timelines\<close>

definition VanillaContract_get_timeline :: "'a Contract_scheme \<Rightarrow> real list" where
  "VanillaContract_get_timeline self = [expiry self]"

text \<open>\<open>[((i+1)/self._num_mon)*self._expiry for i in range(self._num_mon)]\<close>\<close>

definition PathDependentContract_get_timeline :: "'a Contract_scheme \<Rightarrow> real list" where
  "PathDependentContract_get_timeline self =
     map (\<lambda>i. ((of_nat i + 1) / of_int (num_mon self)) * expiry self)
       [0 ..< nat (num_mon self)]"

subsection \<open>Constructors\<close>

text \<open>No subclass passes \<open>num_mon\<close> on: every contract is built with the default 1.\<close>

definition ForwardContract :: "string \<Rightarrow> LongShort \<Rightarrow> real \<Rightarrow> real \<Rightarrow> error + Contract" where
  "ForwardContract und longshort strk exp' =
     Inr (Contract_init FORWARD und FWD longshort strk exp' 1)"

definition EuropeanContract ::
  "string \<Rightarrow> PutCallFwd \<Rightarrow> LongShort \<Rightarrow> real \<Rightarrow> real \<Rightarrow> error + Contract" where
  "EuropeanContract und dtype longshort strk exp' =
     (if dtype \<notin> set [CALL, PUT]
      then Inl (raise_incorrect_derivative_type ''EuropeanContract'')
      else Inr (Contract_init EUROPEANOPTION und dtype longshort strk exp' 1))"

definition AmericanContract ::
  "string \<Rightarrow> PutCallFwd \<Rightarrow> LongShort \<Rightarrow> real \<Rightarrow> real \<Rightarrow> error + Contract" where
  "AmericanContract und dtype longshort strk exp' =
     (if dtype \<notin> set [CALL, PUT]
      then Inl (raise_incorrect_derivative_type ''AmericanContract'')
      else Inr (Contract_init AMERICANOPTION und dtype longshort strk exp' 1))"

definition EuropeanDigitalContract ::
  "string \<Rightarrow> PutCallFwd \<Rightarrow> LongShort \<Rightarrow> real \<Rightarrow> real \<Rightarrow> error + Contract" where
  "EuropeanDigitalContract und dtype longshort strk exp' =
     (if dtype \<notin> set [CALL, PUT]
      then Inl (raise_incorrect_derivative_type ''EuropeanDigitalContract'')
      else Inr (Contract_init EUROPEANDIGITALOPTION und dtype longshort strk exp' 1))"

definition AsianContract ::
  "string \<Rightarrow> PutCallFwd \<Rightarrow> LongShort \<Rightarrow> real \<Rightarrow> real \<Rightarrow> error + Contract" where
  "AsianContract und dtype longshort strk exp' =
     (if dtype \<notin> set [CALL, PUT]
      then Inl (raise_incorrect_derivative_type ''AsianContract'')
      else Inr (Contract_init ASIANOPTION und dtype longshort strk exp' 1))"

definition EuropeanBarrierContract ::
  "string \<Rightarrow> PutCallFwd \<Rightarrow> LongShort \<Rightarrow> real \<Rightarrow> real \<Rightarrow> barrier_level \<Rightarrow> UpDown option \<Rightarrow>
   InOut option \<Rightarrow> error + BarrierContract" where
  "EuropeanBarrierContract und dtype longshort strk exp' barr ud io =
     (if dtype \<notin> set [CALL, PUT]
      then Inl (raise_incorrect_derivative_type ''EuropeanBarrierContract'')
      else if ud \<notin> set [Some UP, Some DOWN]
      then Inl (raise_incorrect_barrier_updown_type ''EuropeanBarrierContract'')
      else if io \<notin> set [Some IN, Some OUT]
      then Inl (raise_incorrect_barrier_inout_type ''EuropeanBarrierContract'')
      else Inr (Contract.extend
                  (Contract_init EUROPEANBARRIEROPTION und dtype longshort strk exp' 1)
                  (BarrierContract.fields barr ud io)))"

definition GenericContract ::
  "ContractType \<Rightarrow> string \<Rightarrow> PutCallFwd \<Rightarrow> LongShort \<Rightarrow> real \<Rightarrow> real \<Rightarrow> barrier_level \<Rightarrow>
   UpDown option \<Rightarrow> InOut option \<Rightarrow> error + BarrierContract" where
  "GenericContract kind und dtype longshort strk exp' barr ud io =
     (if dtype \<notin> set [CALL, PUT, FWD]
      then Inl (raise_incorrect_derivative_type ''GenericContract'')
      else if ud \<notin> set [Some UP, Some DOWN, None]
      then Inl (raise_incorrect_barrier_updown_type ''GenericContract'')
      else if io \<notin> set [Some IN, Some OUT, None]
      then Inl (raise_incorrect_barrier_inout_type ''GenericContract'')
      else Inr (Contract.extend
                  (Contract_init kind und dtype longshort strk exp' 1)
                  (BarrierContract.fields barr ud io)))"

subsection \<open>Barrier breach\<close>

text \<open>
  \<open>EuropeanBarrierContract.is_breached\<close> and \<open>GenericContract.is_breached\<close> have the
  same body: \<open>any([self._barrier <= price for price in prices_und])\<close> when
  \<open>self._updown == 'UP'\<close>, and \<open>any([self._barrier >= price for price in prices_und])\<close>
  otherwise.
\<close>

definition is_breached :: "BarrierContract \<Rightarrow> real list \<Rightarrow> bool" where
  "is_breached self prices_und =
     (if updown self = Some UP
      then list_ex (\<lambda>price. barrier_le (barrier self) price) prices_und
      else list_ex (\<lambda>price. barrier_ge (barrier self) price) prices_und)"

subsection \<open>Conversion to the generic form\<close>

text \<open>
  \<open>convert_to_generic\<close> of the five classes without a barrier passes its six arguments
  to \<open>GenericContract\<close>, whose barrier parameters take their defaults \<open>np.Inf\<close>, \<open>None\<close>,
  \<open>None\<close>; the barrier class passes nine. The method ignores \<open>self\<close>. \<open>to_generic\<close> and
  \<open>barrier_to_generic\<close> are the calls of \<open>main\<close>: every argument is read from the
  contract by its accessor.
\<close>

definition convert_to_generic ::
  "'a Contract_scheme \<Rightarrow> ContractType \<Rightarrow> string \<Rightarrow> PutCallFwd \<Rightarrow> LongShort \<Rightarrow> real \<Rightarrow> real \<Rightarrow>
   error + BarrierContract" where
  "convert_to_generic self kind und dtype longshort strk exp' =
     GenericContract kind und dtype longshort strk exp' PosInf None None"

definition EuropeanBarrierContract_convert_to_generic ::
  "BarrierContract \<Rightarrow> ContractType \<Rightarrow> string \<Rightarrow> PutCallFwd \<Rightarrow> LongShort \<Rightarrow> real \<Rightarrow> real \<Rightarrow>
   barrier_level \<Rightarrow> UpDown option \<Rightarrow> InOut option \<Rightarrow> error + BarrierContract" where
  "EuropeanBarrierContract_convert_to_generic self kind und dtype longshort strk exp' barr ud io =
     GenericContract kind und dtype longshort strk exp' barr ud io"

definition to_generic :: "'a Contract_scheme \<Rightarrow> error + BarrierContract" where
  "to_generic trade =
     convert_to_generic trade (contract trade) (underlying trade) (derivative_type trade)
       (derivative_longshort trade) (strike trade) (expiry trade)"

definition barrier_to_generic :: "BarrierContract \<Rightarrow> error + BarrierContract" where
  "barrier_to_generic trade =
     EuropeanBarrierContract_convert_to_generic trade (contract trade) (underlying trade)
       (derivative_type trade) (derivative_longshort trade) (strike trade) (expiry trade)
       (barrier trade) (updown trade) (inout trade)"

subsection \<open>Payoffs\<close>

text \<open>
  Each payoff follows its method branch by branch. Arithmetic on a list and iteration
  over a number raise where the source reaches them, so a branch that never touches the
  price input does not raise.
\<close>

definition ForwardContract_payoff :: "'a Contract_scheme \<Rightarrow> price_input \<Rightarrow> error + real" where
  "ForwardContract_payoff self x =
     (case x of
        Spot spot \<Rightarrow> Inr (of_int (ls self) * (spot - strike self))
      | Prices _ \<Rightarrow> Inl OperandTypeError)"

definition EuropeanContract_payoff :: "'a Contract_scheme \<Rightarrow> price_input \<Rightarrow> error + real" where
  "EuropeanContract_payoff self x =
     (if derivative_type self = CALL then
        (case x of
           Spot spot \<Rightarrow> Inr (of_int (ls self) * max (spot - strike self) 0)
         | Prices _ \<Rightarrow> Inl OperandTypeError)
      else if derivative_type self = PUT then
        (case x of
           Spot spot \<Rightarrow> Inr (of_int (ls self) * max (strike self - spot) 0)
         | Prices _ \<Rightarrow> Inl OperandTypeError)
      else Inl (raise_incorrect_derivative_type ''EuropeanContract''))"

definition AmericanContract_payoff :: "'a Contract_scheme \<Rightarrow> price_input \<Rightarrow> error + real" where
  "AmericanContract_payoff self x =
     (if derivative_type self = CALL then
        (case x of
           Spot spot \<Rightarrow> Inr (of_int (ls self) * max (spot - strike self) 0)
         | Prices _ \<Rightarrow> Inl OperandTypeError)
      else if derivative_type self = PUT then
        (case x of
           Spot spot \<Rightarrow> Inr (of_int (ls self) * max (strike self - spot) 0)
         | Prices _ \<Rightarrow> Inl OperandTypeError)
      else Inl (raise_incorrect_derivative_type ''AmericanContract''))"

text \<open>\<open>float(b)\<close> of a comparison is 1.0 or 0.0.\<close>

definition EuropeanDigitalContract_payoff ::
  "'a Contract_scheme \<Rightarrow> price_input \<Rightarrow> error + real" where
  "EuropeanDigitalContract_payoff self x =
     (if derivative_type self = CALL then
        (case x of
           Spot spot \<Rightarrow> Inr (of_int (ls self) * (if spot - strike self > 0 then 1 else 0))
         | Prices _ \<Rightarrow> Inl OperandTypeError)
      else if derivative_type self = PUT then
        (case x of
           Spot spot \<Rightarrow> Inr (of_int (ls self) * (if strike self - spot > 0 then 1 else 0))
         | Prices _ \<Rightarrow> Inl OperandTypeError)
      else Inl (raise_incorrect_derivative_type ''EuropeanDigitalContract''))"

definition AsianContract_payoff :: "'a Contract_scheme \<Rightarrow> price_input \<Rightarrow> error + real" where
  "AsianContract_payoff self x =
     (if derivative_type self = CALL then
        (case x of
           Spot _ \<Rightarrow> Inl OperandTypeError
         | Prices prices_und \<Rightarrow>
             (case mean prices_und of
                Inl e \<Rightarrow> Inl e
              | Inr m \<Rightarrow> Inr (of_int (ls self) * max (m - strike self) 0)))
      else if derivative_type self = PUT then
        (case x of
           Spot _ \<Rightarrow> Inl OperandTypeError
         | Prices prices_und \<Rightarrow>
             (case mean prices_und of
                Inl e \<Rightarrow> Inl e
              | Inr m \<Rightarrow> Inr (of_int (ls self) * max (strike self - m) 0)))
      else Inl (raise_incorrect_derivative_type ''AsianContract''))"

text \<open>
  \<open>mult = (self._inout == 'IN') * self.is_breached(prices_und) +
          (self._inout == 'OUT') * (1 - self.is_breached(prices_und))\<close>:
  Python's booleans are the integers 0 and 1 in arithmetic.
\<close>

definition barrier_mult :: "BarrierContract \<Rightarrow> real list \<Rightarrow> int" where
  "barrier_mult self prices_und =
     of_bool (inout self = Some IN) * of_bool (is_breached self prices_und) +
     of_bool (inout self = Some OUT) * (1 - of_bool (is_breached self prices_und))"

definition EuropeanBarrierContract_payoff :: "BarrierContract \<Rightarrow> price_input \<Rightarrow> error + real" where
  "EuropeanBarrierContract_payoff self x =
     (case x of
        Spot _ \<Rightarrow> Inl OperandTypeError
      | Prices prices_und \<Rightarrow>
          (let mult = barrier_mult self prices_und in
           if derivative_type self = CALL then
             (case last_price prices_und of
                Inl e \<Rightarrow> Inl e
              | Inr s \<Rightarrow> Inr (of_int mult * of_int (ls self) * max (s - strike self) 0))
           else if derivative_type self = PUT then
             (case last_price prices_und of
                Inl e \<Rightarrow> Inl e
              | Inr s \<Rightarrow> Inr (of_int mult * of_int (ls self) * max (strike self - s) 0))
           else Inl (raise_incorrect_derivative_type ''EuropeanBarrierContract'')))"

text \<open>
  \<open>GenericContract.payoff\<close> dispatches on \<open>self._contract\<close>. Its inner \<open>if/elif\<close> chains
  have no \<open>else\<close>: where none of the tests holds the method ends without a \<open>return\<close>,
  and the caller gets \<open>None\<close>, here \<open>Inr None\<close>.
\<close>

definition GenericContract_payoff :: "BarrierContract \<Rightarrow> price_input \<Rightarrow> error + real option" where
  "GenericContract_payoff self x =
     (if contract self = FORWARD then
        (case x of
           Spot spot \<Rightarrow> Inr (Some (of_int (ls self) * (spot - strike self)))
         | Prices _ \<Rightarrow> Inl OperandTypeError)
      else if contract self = AMERICANOPTION \<or> contract self = EUROPEANOPTION then
        (if derivative_type self = CALL then
           (case x of
              Spot spot \<Rightarrow> Inr (Some (of_int (ls self) * max (spot - strike self) 0))
            | Prices _ \<Rightarrow> Inl OperandTypeError)
         else if derivative_type self = PUT then
           (case x of
              Spot spot \<Rightarrow> Inr (Some (of_int (ls self) * max (strike self - spot) 0))
            | Prices _ \<Rightarrow> Inl OperandTypeError)
         else Inr None)
      else if contract self = EUROPEANDIGITALOPTION then
        (if derivative_type self = CALL then
           (case x of
              Spot spot \<Rightarrow>
                Inr (Some (of_int (ls self) * (if spot - strike self > 0 then 1 else 0)))
            | Prices _ \<Rightarrow> Inl OperandTypeError)
         else if derivative_type self = PUT then
           (case x of
              Spot spot \<Rightarrow>
                Inr (Some (of_int (ls self) * (if strike self - spot > 0 then 1 else 0)))
            | Prices _ \<Rightarrow> Inl OperandTypeError)
         else Inr None)
      else if contract self = ASIANOPTION then
        (if derivative_type self = CALL then
           (case x of
              Spot _ \<Rightarrow> Inl OperandTypeError
            | Prices prices_und \<Rightarrow>
                (case mean prices_und of
                   Inl e \<Rightarrow> Inl e
                 | Inr m \<Rightarrow> Inr (Some (of_int (ls self) * max (m - strike self) 0))))
         else if derivative_type self = PUT then
           (case x of
              Spot _ \<Rightarrow> Inl OperandTypeError
            | Prices prices_und \<Rightarrow>
                (case mean prices_und of
                   Inl e \<Rightarrow> Inl e
                 | Inr m \<Rightarrow> Inr (Some (of_int (ls self) * max (strike self - m) 0))))
         else Inr None)
      else if contract self = EUROPEANBARRIEROPTION then
        (case x of
           Spot _ \<Rightarrow> Inl OperandTypeError
         | Prices prices_und \<Rightarrow>
             (let mult = barrier_mult self prices_und in
              if derivative_type self = CALL then
                (case last_price prices_und of
                   Inl e \<Rightarrow> Inl e
                 | Inr s \<Rightarrow>
                     Inr (Some (of_int mult * of_int (ls self) * max (s - strike self) 0)))
              else if derivative_type self = PUT then
                (case last_price prices_und of
                   Inl e \<Rightarrow> Inl e
                 | Inr s \<Rightarrow>
                     Inr (Some (of_int mult * of_int (ls self) * max (strike self - s) 0)))
              else Inr None))
      else Inr None)"

section \<open>Binary64 arithmetic\<close>

text \<open>
  A Python float is an IEEE 754 binary64 number: \<open>m * 2 ^ e\<close> with an integer \<open>m\<close> of
  magnitude below \<open>2 ^ 53\<close> and \<open>e\<close> from -1074 to 971. A float literal and every float
  operation give the exact result rounded to the nearest such number, a tie going to the
  even \<open>m\<close>. \<open>round_double\<close> is this rounding for results of magnitude below
  \<open>2 ^ 1024\<close>; a larger result is infinite in Python and outside the model.
  \<open>ilog2 x\<close> is the integer part of the binary logarithm of a positive \<open>x\<close>, computed
  from bit lengths; \<open>double_exponent x\<close> is the exponent \<open>e\<close> of the numbers next to
  \<open>x\<close>, held at -1074 where \<open>x\<close> is subnormal.
\<close>

definition round_half_even :: "real \<Rightarrow> int" where
  "round_half_even x =
     (let f = \<lfloor>x\<rfloor>; d = x - of_int f
      in if d < 1 / 2 then f else if 1 / 2 < d then f + 1 else if even f then f else f + 1)"

definition pow2 :: "int \<Rightarrow> real" where
  "pow2 e = (if 0 \<le> e then 2 ^ nat e else 1 / 2 ^ nat (- e))"

definition ilog2 :: "real \<Rightarrow> int" where
  "ilog2 x = (if 1 \<le> x then bitlen \<lfloor>x\<rfloor> - 1 else - bitlen (\<lceil>1 / x\<rceil> - 1))"

definition double_exponent :: "real \<Rightarrow> int" where
  "double_exponent x = max (ilog2 \<bar>x\<bar> - 52) (- 1074)"

definition round_double :: "real \<Rightarrow> real" where
  "round_double x =
     (if x = 0 then 0
      else of_int (round_half_even (x / pow2 (double_exponent x))) * pow2 (double_exponent x))"

text \<open>
  \<open>a - b\<close> and \<open>a * b\<close> on floats. An \<open>int\<close> operand is converted to a float first;
  the conversion is exact for an integer of magnitude up to \<open>2 ^ 53\<close>, such as the sign
  \<open>ls\<close> and the integers of \<open>main\<close>. (Between two such \<open>int\<close>s Python computes exactly,
  with the same result.) \<open>max(v, 0)\<close> is \<open>max v 0\<close>.
\<close>

definition float_sub :: "real \<Rightarrow> real \<Rightarrow> real" where
  "float_sub a b = round_double (a - b)"

definition float_mul :: "real \<Rightarrow> real \<Rightarrow> real" where
  "float_mul a b = round_double (a * b)"

text \<open>
  \<open>statistics.mean\<close> adds the data exactly, as fractions, and rounds the quotient by the
  number of data once.
\<close>

definition mean_float :: "real list \<Rightarrow> error + real" where
  "mean_float data = (if data = [] then Inl StatisticsError
                      else Inr (round_double (sum_list data / of_nat (length data))))"

text \<open>
  \<open>ForwardContract.payoff\<close>, \<open>EuropeanContract.payoff\<close> and \<open>AsianContract.payoff\<close> on
  floats: the branches and operations of the methods, each operation rounded. The
  attributes and prices given to them are binary64 numbers; a decimal literal \<open>d\<close> of the
  source is \<open>round_double d\<close>.
\<close>

definition ForwardContract_payoff_float :: "'a Contract_scheme \<Rightarrow> price_input \<Rightarrow> error + real" where
  "ForwardContract_payoff_float self x =
     (case x of
        Spot spot \<Rightarrow> Inr (float_mul (of_int (ls self)) (float_sub spot (strike self)))
      | Prices _ \<Rightarrow> Inl OperandTypeError)"

definition EuropeanContract_payoff_float :: "'a Contract_scheme \<Rightarrow> price_input \<Rightarrow> error + real" where
  "EuropeanContract_payoff_float self x =
     (if derivative_type self = CALL then
        (case x of
           Spot spot \<Rightarrow> Inr (float_mul (of_int (ls self)) (max (float_sub spot (strike self)) 0))
         | Prices _ \<Rightarrow> Inl OperandTypeError)
      else if derivative_type self = PUT then
        (case x of
           Spot spot \<Rightarrow> Inr (float_mul (of_int (ls self)) (max (float_sub (strike self) spot) 0))
         | Prices _ \<Rightarrow> Inl OperandTypeError)
      else Inl (raise_incorrect_derivative_type ''EuropeanContract''))"

definition AsianContract_payoff_float :: "'a Contract_scheme \<Rightarrow> price_input \<Rightarrow> error + real" where
  "AsianContract_payoff_float self x =
     (if derivative_type self = CALL then
        (case x of
           Spot _ \<Rightarrow> Inl OperandTypeError
         | Prices prices_und \<Rightarrow>
             (case mean_float prices_und of
                Inl e \<Rightarrow> Inl e
              | Inr m \<Rightarrow> Inr (float_mul (of_int (ls self)) (max (float_sub m (strike self)) 0))))
      else if derivative_type self = PUT then
        (case x of
           Spot _ \<Rightarrow> Inl OperandTypeError
         | Prices prices_und \<Rightarrow>
             (case mean_float prices_und of
                Inl e \<Rightarrow> Inl e
              | Inr m \<Rightarrow> Inr (float_mul (of_int (ls self)) (max (float_sub (strike self) m) 0))))
      else Inl (raise_incorrect_derivative_type ''AsianContract''))"

section \<open>Market model\<close>

text \<open>
  The attributes \<open>MarketModel.__init__\<close> sets. The volatility grid is an object of
  \<open>market_data.py\<close>, which is not among the sources: its type is the parameter \<open>'g\<close>, and
  its method \<open>get_vol\<close>, from a list of (strike, expiry) coordinates to a list of
  volatilities, is the parameter \<open>grid_get_vol\<close> of the two lookups below.
\<close>

record 'g MarketModel =
  model_underlying :: string
  risk_free_rate :: real
  spot :: real
  volgrid :: 'g

text \<open>\<open>vols[0]\<close>.\<close>

definition first_vol :: "real list \<Rightarrow> error + real" where
  "first_vol vols = (case vols of [] \<Rightarrow> Inl IndexError | v # _ \<Rightarrow> Inr v)"

definition BSVolModel_get_vol ::
  "('g \<Rightarrow> (real \<times> real) list \<Rightarrow> real list) \<Rightarrow> 'g MarketModel \<Rightarrow> real \<Rightarrow> real \<Rightarrow> error + real" where
  "BSVolModel_get_vol grid_get_vol self strk exp' =
     (let atm_strike = 1 * spot self;
          expiry_ref = 1;
          coordinate = [(atm_strike, expiry_ref)]
      in first_vol (grid_get_vol (volgrid self) coordinate))"

definition FlatVolModel_get_vol ::
  "('g \<Rightarrow> (real \<times> real) list \<Rightarrow> real list) \<Rightarrow> 'g MarketModel \<Rightarrow> real \<Rightarrow> real \<Rightarrow> error + real" where
  "FlatVolModel_get_vol grid_get_vol self strk exp' =
     (let coordinate = [(strk, exp')]
      in first_vol (grid_get_vol (volgrid self) coordinate))"

section \<open>Facts about construction\<close>

text \<open>
  What a successful construction tells about its arguments and its result, the selectors
  of the constructed records, and the generic constructor, which accepts every member
  of the three enumerations and \<open>None\<close>.
\<close>

lemma extend_fields [simp]:
  "barrier (Contract.extend c (BarrierContract.fields barr ud io)) = barr"
  "updown (Contract.extend c (BarrierContract.fields barr ud io)) = ud"
  "inout (Contract.extend c (BarrierContract.fields barr ud io)) = io"
  "contract (Contract.extend c m) = contract c"
  "underlying (Contract.extend c m) = underlying c"
  "derivative_type (Contract.extend c m) = derivative_type c"
  "derivative_longshort (Contract.extend c m) = derivative_longshort c"
  "ls (Contract.extend c m) = ls c"
  "strike (Contract.extend c m) = strike c"
  "expiry (Contract.extend c m) = expiry c"
  "num_mon (Contract.extend c m) = num_mon c"
  by (simp_all add: Contract.extend_def BarrierContract.fields_def)

lemma Contract_init_sel [simp]:
  "contract (Contract_init kind und dtype longshort strk exp' n) = kind"
  "underlying (Contract_init kind und dtype longshort strk exp' n) = und"
  "derivative_type (Contract_init kind und dtype longshort strk exp' n) = dtype"
  "derivative_longshort (Contract_init kind und dtype longshort strk exp' n) = longshort"
  "ls (Contract_init kind und dtype longshort strk exp' n) = (if longshort = LONG then 1 else - 1)"
  "strike (Contract_init kind und dtype longshort strk exp' n) = strk"
  "expiry (Contract_init kind und dtype longshort strk exp' n) = exp'"
  "num_mon (Contract_init kind und dtype longshort strk exp' n) = n"
  by (simp_all add: Contract_init_def)

lemma vanilla_Inr:
  "EuropeanContract und dtype longshort strk exp' = Inr c \<Longrightarrow>
     dtype \<in> {CALL, PUT} \<and> c = Contract_init EUROPEANOPTION und dtype longshort strk exp' 1"
  "AmericanContract und dtype longshort strk exp' = Inr c \<Longrightarrow>
     dtype \<in> {CALL, PUT} \<and> c = Contract_init AMERICANOPTION und dtype longshort strk exp' 1"
  "EuropeanDigitalContract und dtype longshort strk exp' = Inr c \<Longrightarrow>
     dtype \<in> {CALL, PUT} \<and> c = Contract_init EUROPEANDIGITALOPTION und dtype longshort strk exp' 1"
  "AsianContract und dtype longshort strk exp' = Inr c \<Longrightarrow>
     dtype \<in> {CALL, PUT} \<and> c = Contract_init ASIANOPTION und dtype longshort strk exp' 1"
  by (auto simp: EuropeanContract_def AmericanContract_def EuropeanDigitalContract_def
        AsianContract_def split: if_splits)

lemma EuropeanBarrierContract_Inr:
  "EuropeanBarrierContract und dtype longshort strk exp' barr ud io = Inr c \<Longrightarrow>
     dtype \<in> {CALL, PUT} \<and> ud \<in> {Some UP, Some DOWN} \<and> io \<in> {Some IN, Some OUT} \<and>
     c = Contract.extend (Contract_init EUROPEANBARRIEROPTION und dtype longshort strk exp' 1)
           (BarrierContract.fields barr ud io)"
  by (auto simp: EuropeanBarrierContract_def split: if_splits)

lemma GenericContract_Inr:
  "GenericContract kind und dtype longshort strk exp' barr ud io =
     Inr (Contract.extend (Contract_init kind und dtype longshort strk exp' 1)
            (BarrierContract.fields barr ud io))"
proof -
  have "dtype \<in> set [CALL, PUT, FWD]" by (cases dtype) simp_all
  moreover have "ud \<in> set [Some UP, Some DOWN, None]"
  proof (cases ud)
    case None then show ?thesis by simp
  next
    case (Some u) then show ?thesis by (cases u) simp_all
  qed
  moreover have "io \<in> set [Some IN, Some OUT, None]"
  proof (cases io)
    case None then show ?thesis by simp
  next
    case (Some u) then show ?thesis by (cases u) simp_all
  qed
  ultimately show ?thesis by (simp add: GenericContract_def)
qed

lemma to_generic_eq:
  "to_generic (Contract_init kind und dtype longshort strk exp' n) =
     Inr (Contract.extend (Contract_init kind und dtype longshort strk exp' 1)
            (BarrierContract.fields PosInf None None))"
  by (simp add: to_generic_def convert_to_generic_def GenericContract_Inr)

lemma barrier_to_generic_eq:
  "barrier_to_generic
     (Contract.extend (Contract_init kind und dtype longshort strk exp' n)
        (BarrierContract.fields barr ud io)) =
   Inr (Contract.extend (Contract_init kind und dtype longshort strk exp' 1)
        (BarrierContract.fields barr ud io))"
  by (simp add: barrier_to_generic_def EuropeanBarrierContract_convert_to_generic_def
        GenericContract_Inr)

section \<open>Barrier breach and barrier payoff\<close>

text \<open>
  The breach test in the words of the comparison it makes, for a finite and for an
  infinite barrier level.
\<close>

lemma is_breached_Level:
  "is_breached c prices =
     (case barrier c of
        Level b \<Rightarrow> if updown c = Some UP then (\<exists>p\<in>set prices. b \<le> p) else (\<exists>p\<in>set prices. p \<le> b)
      | PosInf \<Rightarrow> if updown c = Some UP then False else prices \<noteq> [])"
  by (cases "barrier c") (auto simp: is_breached_def list_ex_iff ex_in_conv)

lemma is_breached_constructed:
  "EuropeanBarrierContract und dtype longshort strk exp' barr ud io = Inr c \<Longrightarrow>
   is_breached c prices =
     (case barr of
        Level b \<Rightarrow> if ud = Some UP then (\<exists>p\<in>set prices. b \<le> p) else (\<exists>p\<in>set prices. p \<le> b)
      | PosInf \<Rightarrow> if ud = Some UP then False else prices \<noteq> [])"
proof -
  assume "EuropeanBarrierContract und dtype longshort strk exp' barr ud io = Inr c"
  from EuropeanBarrierContract_Inr [OF this]
  have "barrier c = barr" and "updown c = ud" by simp_all
  then show ?thesis by (auto simp add: is_breached_Level split: barrier_level.splits)
qed

text \<open>
  C2. For a \<open>EuropeanBarrierContract\<close> built with direction UP, \<open>is_breached\<close> of a
  price series holds iff some price of the series is at least the barrier level; with
  direction DOWN, iff some price is at most the barrier level. An infinite level is never
  reached from below and is above every price. With barrier 2.7 and direction UP the
  series [1, 2, 2.5, 2] does not breach and [1, 2, 3.5, 2] does.
\<close>

theorem barrier_breach_rule:
  "(EuropeanBarrierContract und dtype longshort strk exp' (Level b) (Some UP) io = Inr c \<longrightarrow>
      is_breached c prices = (\<exists>p\<in>set prices. p \<ge> b)) \<and>
   (EuropeanBarrierContract und dtype longshort strk exp' (Level b) (Some DOWN) io = Inr c \<longrightarrow>
      is_breached c prices = (\<exists>p\<in>set prices. p \<le> b)) \<and>
   (EuropeanBarrierContract und dtype longshort strk exp' PosInf (Some UP) io = Inr c \<longrightarrow>
      \<not> is_breached c prices) \<and>
   (EuropeanBarrierContract und dtype longshort strk exp' PosInf (Some DOWN) io = Inr c \<longrightarrow>
      is_breached c prices = (prices \<noteq> [])) \<and>
   (EuropeanBarrierContract und dtype longshort strk exp' (Level 2.7) (Some UP) io = Inr c \<longrightarrow>
      \<not> is_breached c [1, 2, 2.5, 2] \<and> is_breached c [1, 2, 3.5, 2])"
proof (intro conjI impI)
  assume h: "EuropeanBarrierContract und dtype longshort strk exp' (Level b) (Some UP) io = Inr c"
  show "is_breached c prices = (\<exists>p\<in>set prices. p \<ge> b)"
    by (simp add: is_breached_constructed [OF h])
next
  assume h: "EuropeanBarrierContract und dtype longshort strk exp' (Level b) (Some DOWN) io = Inr c"
  show "is_breached c prices = (\<exists>p\<in>set prices. p \<le> b)"
    by (simp add: is_breached_constructed [OF h])
next
  assume h: "EuropeanBarrierContract und dtype longshort strk exp' PosInf (Some UP) io = Inr c"
  show "\<not> is_breached c prices"
    by (simp add: is_breached_constructed [OF h])
next
  assume h: "EuropeanBarrierContract und dtype longshort strk exp' PosInf (Some DOWN) io = Inr c"
  show "is_breached c prices = (prices \<noteq> [])"
    by (simp add: is_breached_constructed [OF h])
next
  assume h: "EuropeanBarrierContract und dtype longshort strk exp' (Level 2.7) (Some UP) io = Inr c"
  show "\<not> is_breached c [1, 2, 2.5, 2]" and "is_breached c [1, 2, 3.5, 2]"
    by (simp_all add: is_breached_constructed [OF h])
qed

theorem barrier_breach_rule_witness:
  "\<not> is_breached
       (Contract.extend
          (Contract_init EUROPEANBARRIEROPTION ''Deutshe Bank'' CALL LONG 1.5 2 1)
          (BarrierContract.fields (Level 2.7) (Some UP) (Some IN))) [1, 2, 2.5, 2] \<and>
   is_breached
       (Contract.extend
          (Contract_init EUROPEANBARRIEROPTION ''Deutshe Bank'' CALL LONG 1.5 2 1)
          (BarrierContract.fields (Level 2.7) (Some UP) (Some IN))) [1, 2, 3.5, 2] \<and>
   is_breached
       (Contract.extend
          (Contract_init EUROPEANBARRIEROPTION ''Deutshe Bank'' PUT SHORT 1.5 2 1)
          (BarrierContract.fields (Level 1.5) (Some DOWN) (Some OUT))) [3, 2, 1.5, 2] \<and>
   \<not> is_breached
       (Contract.extend
          (Contract_init EUROPEANBARRIEROPTION ''Deutshe Bank'' CALL LONG 1.5 2 1)
          (BarrierContract.fields PosInf (Some UP) (Some IN))) [1, 2, 3.5, 2] \<and>
   is_breached
       (Contract.extend
          (Contract_init EUROPEANBARRIEROPTION ''Deutshe Bank'' CALL LONG 1.5 2 1)
          (BarrierContract.fields PosInf (Some DOWN) (Some IN))) [1, 2, 3.5, 2]"
proof -
  let ?u = "Contract.extend
            (Contract_init EUROPEANBARRIEROPTION ''Deutshe Bank'' CALL LONG 1.5 2 1)
            (BarrierContract.fields (Level 2.7) (Some UP) (Some IN))"
  let ?d = "Contract.extend
            (Contract_init EUROPEANBARRIEROPTION ''Deutshe Bank'' PUT SHORT 1.5 2 1)
            (BarrierContract.fields (Level 1.5) (Some DOWN) (Some OUT))"
  let ?iu = "Contract.extend
            (Contract_init EUROPEANBARRIEROPTION ''Deutshe Bank'' CALL LONG 1.5 2 1)
            (BarrierContract.fields PosInf (Some UP) (Some IN))"
  let ?id = "Contract.extend
            (Contract_init EUROPEANBARRIEROPTION ''Deutshe Bank'' CALL LONG 1.5 2 1)
            (BarrierContract.fields PosInf (Some DOWN) (Some IN))"
  have u: "EuropeanBarrierContract ''Deutshe Bank'' CALL LONG 1.5 2 (Level 2.7) (Some UP)
             (Some IN) = Inr ?u"
    by (simp add: EuropeanBarrierContract_def)
  have d: "EuropeanBarrierContract ''Deutshe Bank'' PUT SHORT 1.5 2 (Level 1.5) (Some DOWN)
             (Some OUT) = Inr ?d"
    by (simp add: EuropeanBarrierContract_def)
  have iu: "EuropeanBarrierContract ''Deutshe Bank'' CALL LONG 1.5 2 PosInf (Some UP)
             (Some IN) = Inr ?iu"
    by (simp add: EuropeanBarrierContract_def)
  have id: "EuropeanBarrierContract ''Deutshe Bank'' CALL LONG 1.5 2 PosInf (Some DOWN)
             (Some IN) = Inr ?id"
    by (simp add: EuropeanBarrierContract_def)
  have "\<not> is_breached ?u [1, 2, 2.5, 2]" and "is_breached ?u [1, 2, 3.5, 2]"
    using u barrier_breach_rule [where und = "''Deutshe Bank''" and dtype = CALL
        and longshort = LONG and strk = "1.5" and exp' = 2 and b = "2.7" and io = "Some IN"
        and c = ?u and prices = "[1, 2, 3.5, 2]"]
    by simp_all
  moreover have "is_breached ?d [3, 2, 1.5, 2]"
    using d barrier_breach_rule [where und = "''Deutshe Bank''" and dtype = PUT
        and longshort = SHORT and strk = "1.5" and exp' = 2 and b = "1.5" and io = "Some OUT"
        and c = ?d and prices = "[3, 2, 1.5, 2]"]
    by simp
  moreover have "\<not> is_breached ?iu [1, 2, 3.5, 2]"
    using iu barrier_breach_rule [where und = "''Deutshe Bank''" and dtype = CALL
        and longshort = LONG and strk = "1.5" and exp' = 2 and io = "Some IN"
        and c = ?iu and prices = "[1, 2, 3.5, 2]"]
    by simp
  moreover have "is_breached ?id [1, 2, 3.5, 2]"
    using id barrier_breach_rule [where und = "''Deutshe Bank''" and dtype = CALL
        and longshort = LONG and strk = "1.5" and exp' = 2 and io = "Some IN"
        and c = ?id and prices = "[1, 2, 3.5, 2]"]
    by simp
  ultimately show ?thesis by simp
qed

text \<open>
  The multiplier is 1 exactly when the activation is IN and the barrier was breached, or
  the activation is OUT and it was not; otherwise it is 0.
\<close>

lemma barrier_mult_01:
  "inout c \<in> {Some IN, Some OUT} \<Longrightarrow>
   barrier_mult c prices =
     (if (inout c = Some IN \<and> is_breached c prices) \<or> (inout c = Some OUT \<and> \<not> is_breached c prices)
      then 1 else 0)"
  by (auto simp: barrier_mult_def)

lemma barrier_mult_extend:
  "barrier_mult (Contract.extend c (BarrierContract.fields barr ud io)) prices =
   barrier_mult (Contract.extend c' (BarrierContract.fields barr ud io)) prices"
  by (simp add: barrier_mult_def is_breached_def)

text \<open>
  C3. For a \<open>EuropeanBarrierContract\<close> and a non-empty price series the payoff is the sign
  of the position times \<open>max (S_last - K) 0\<close> for a call (\<open>max (K - S_last) 0\<close> for a
  put), where \<open>S_last\<close> is the last price of the series, times 1 if the activation is IN
  and the series breaches the barrier or the activation is OUT and it does not, and times
  0 otherwise.
\<close>

theorem barrier_payoff:
  "EuropeanBarrierContract und dtype longshort strk exp' barr ud io = Inr c \<Longrightarrow> prices \<noteq> [] \<Longrightarrow>
   EuropeanBarrierContract_payoff c (Prices prices) =
     Inr ((if longshort = LONG then 1 else - 1) *
          (if dtype = CALL then max (last prices - strk) 0 else max (strk - last prices) 0) *
          (if (io = Some IN \<and> is_breached c prices) \<or> (io = Some OUT \<and> \<not> is_breached c prices)
           then 1 else 0))"
proof -
  assume h: "EuropeanBarrierContract und dtype longshort strk exp' barr ud io = Inr c"
    and ne: "prices \<noteq> []"
  from EuropeanBarrierContract_Inr [OF h]
  have d: "dtype \<in> {CALL, PUT}" and i: "io \<in> {Some IN, Some OUT}"
    and c: "c = Contract.extend (Contract_init EUROPEANBARRIEROPTION und dtype longshort strk exp' 1)
           (BarrierContract.fields barr ud io)"
    by simp_all
  have io: "inout c = io" and dt: "derivative_type c = dtype" and k: "strike c = strk"
    and l: "ls c = (if longshort = LONG then 1 else - 1)"
    by (simp_all add: c Contract_init_def)
  have m: "barrier_mult c prices =
     (if (io = Some IN \<and> is_breached c prices) \<or> (io = Some OUT \<and> \<not> is_breached c prices)
      then 1 else 0)"
    using barrier_mult_01 [of c prices] i io by simp
  show ?thesis
    using d ne
    by (auto simp add: EuropeanBarrierContract_payoff_def last_price_def Let_def m io dt k l)
qed

theorem barrier_payoff_witness:
  "EuropeanBarrierContract_payoff
     (Contract.extend
        (Contract_init EUROPEANBARRIEROPTION ''Deutshe Bank'' CALL LONG 1.5 2 1)
        (BarrierContract.fields (Level 2.7) (Some UP) (Some IN)))
     (Prices [-1, -0.5, 0, 0.5, 1, 1.5, 2, 2.5, 3]) = Inr 1.5"
proof -
  let ?u = "Contract.extend
            (Contract_init EUROPEANBARRIEROPTION ''Deutshe Bank'' CALL LONG 1.5 2 1)
            (BarrierContract.fields (Level 2.7) (Some UP) (Some IN))"
  have u: "EuropeanBarrierContract ''Deutshe Bank'' CALL LONG 1.5 2 (Level 2.7) (Some UP)
             (Some IN) = Inr ?u"
    by (simp add: EuropeanBarrierContract_def)
  have ne: "[-1, -0.5, 0, 0.5, 1, 1.5, 2, 2.5, 3] \<noteq> ([] :: real list)" by simp
  have b: "is_breached ?u [-1, -0.5, 0, 0.5, 1, 1.5, 2, 2.5, 3]"
    by (simp add: is_breached_def)
  show ?thesis
    using barrier_payoff [OF u ne] b by simp
qed

section \<open>Round trip through the generic form\<close>

text \<open>
  For each kind, the generic payoff of a contract carrying the same attributes is the
  payoff of the concrete class.
\<close>

lemma generic_forward:
  "GenericContract_payoff
     (Contract.extend (Contract_init FORWARD und dtype longshort strk exp' n) m) x =
   map_sum id Some (ForwardContract_payoff (Contract_init FORWARD und dtype longshort strk exp' n) x)"
  by (simp add: GenericContract_payoff_def ForwardContract_payoff_def split: price_input.splits)

lemma generic_european:
  "dtype \<in> {CALL, PUT} \<Longrightarrow>
   GenericContract_payoff
     (Contract.extend (Contract_init EUROPEANOPTION und dtype longshort strk exp' n) m) x =
   map_sum id Some
     (EuropeanContract_payoff (Contract_init EUROPEANOPTION und dtype longshort strk exp' n) x)"
  by (auto simp add: GenericContract_payoff_def EuropeanContract_payoff_def
        split: price_input.splits)

lemma generic_american:
  "dtype \<in> {CALL, PUT} \<Longrightarrow>
   GenericContract_payoff
     (Contract.extend (Contract_init AMERICANOPTION und dtype longshort strk exp' n) m) x =
   map_sum id Some
     (AmericanContract_payoff (Contract_init AMERICANOPTION und dtype longshort strk exp' n) x)"
  by (auto simp add: GenericContract_payoff_def AmericanContract_payoff_def
        split: price_input.splits)

lemma generic_digital:
  "dtype \<in> {CALL, PUT} \<Longrightarrow>
   GenericContract_payoff
     (Contract.extend (Contract_init EUROPEANDIGITALOPTION und dtype longshort strk exp' n) m) x =
   map_sum id Some
     (EuropeanDigitalContract_payoff
        (Contract_init EUROPEANDIGITALOPTION und dtype longshort strk exp' n) x)"
  by (auto simp add: GenericContract_payoff_def EuropeanDigitalContract_payoff_def
        split: price_input.splits)

lemma generic_asian:
  "dtype \<in> {CALL, PUT} \<Longrightarrow>
   GenericContract_payoff
     (Contract.extend (Contract_init ASIANOPTION und dtype longshort strk exp' n) m) x =
   map_sum id Some
     (AsianContract_payoff (Contract_init ASIANOPTION und dtype longshort strk exp' n) x)"
  by (auto simp add: GenericContract_payoff_def AsianContract_payoff_def
        split: price_input.splits sum.splits)

lemma generic_barrier:
  "contract c = EUROPEANBARRIEROPTION \<Longrightarrow> derivative_type c \<in> {CALL, PUT} \<Longrightarrow>
   GenericContract_payoff c x = map_sum id Some (EuropeanBarrierContract_payoff c x)"
  by (auto simp add: GenericContract_payoff_def EuropeanBarrierContract_payoff_def Let_def
        split: price_input.splits sum.splits)

text \<open>
  C1. For each of the six concrete classes: a constructed contract converts to a generic
  contract (the conversion receives the contract's own kind, underlying, derivative type,
  position, strike and expiry, and for the barrier class also barrier, updown and inout),
  and \<open>payoff\<close> of the generic contract gives, on every price input, the result that
  \<open>payoff\<close> of the concrete contract gives: the same number, or the same exception.
\<close>

theorem roundtrip_fidelity:
  "(ForwardContract und longshort strk exp' = Inr c \<longrightarrow>
      (\<exists>g. to_generic c = Inr g \<and>
           GenericContract_payoff g x = map_sum id Some (ForwardContract_payoff c x))) \<and>
   (EuropeanContract und dtype longshort strk exp' = Inr c \<longrightarrow>
      (\<exists>g. to_generic c = Inr g \<and>
           GenericContract_payoff g x = map_sum id Some (EuropeanContract_payoff c x))) \<and>
   (AmericanContract und dtype longshort strk exp' = Inr c \<longrightarrow>
      (\<exists>g. to_generic c = Inr g \<and>
           GenericContract_payoff g x = map_sum id Some (AmericanContract_payoff c x))) \<and>
   (EuropeanDigitalContract und dtype longshort strk exp' = Inr c \<longrightarrow>
      (\<exists>g. to_generic c = Inr g \<and>
           GenericContract_payoff g x = map_sum id Some (EuropeanDigitalContract_payoff c x))) \<and>
   (AsianContract und dtype longshort strk exp' = Inr c \<longrightarrow>
      (\<exists>g. to_generic c = Inr g \<and>
           GenericContract_payoff g x = map_sum id Some (AsianContract_payoff c x))) \<and>
   (EuropeanBarrierContract und dtype longshort strk exp' barr ud io = Inr bc \<longrightarrow>
      (\<exists>g. barrier_to_generic bc = Inr g \<and>
           GenericContract_payoff g x = map_sum id Some (EuropeanBarrierContract_payoff bc x)))"
proof (intro conjI impI)
  assume "ForwardContract und longshort strk exp' = Inr c"
  then have "c = Contract_init FORWARD und FWD longshort strk exp' 1"
    by (simp add: ForwardContract_def)
  then show "\<exists>g. to_generic c = Inr g \<and>
           GenericContract_payoff g x = map_sum id Some (ForwardContract_payoff c x)"
    by (simp add: to_generic_eq generic_forward)
next
  assume "EuropeanContract und dtype longshort strk exp' = Inr c"
  from vanilla_Inr(1) [OF this]
  show "\<exists>g. to_generic c = Inr g \<and>
           GenericContract_payoff g x = map_sum id Some (EuropeanContract_payoff c x)"
    by (simp add: to_generic_eq generic_european)
next
  assume "AmericanContract und dtype longshort strk exp' = Inr c"
  from vanilla_Inr(2) [OF this]
  show "\<exists>g. to_generic c = Inr g \<and>
           GenericContract_payoff g x = map_sum id Some (AmericanContract_payoff c x)"
    by (simp add: to_generic_eq generic_american)
next
  assume "EuropeanDigitalContract und dtype longshort strk exp' = Inr c"
  from vanilla_Inr(3) [OF this]
  show "\<exists>g. to_generic c = Inr g \<and>
           GenericContract_payoff g x = map_sum id Some (EuropeanDigitalContract_payoff c x)"
    by (simp add: to_generic_eq generic_digital)
next
  assume "AsianContract und dtype longshort strk exp' = Inr c"
  from vanilla_Inr(4) [OF this]
  show "\<exists>g. to_generic c = Inr g \<and>
           GenericContract_payoff g x = map_sum id Some (AsianContract_payoff c x)"
    by (simp add: to_generic_eq generic_asian)
next
  assume "EuropeanBarrierContract und dtype longshort strk exp' barr ud io = Inr bc"
  from EuropeanBarrierContract_Inr [OF this]
  show "\<exists>g. barrier_to_generic bc = Inr g \<and>
           GenericContract_payoff g x = map_sum id Some (EuropeanBarrierContract_payoff bc x)"
    by (simp add: barrier_to_generic_eq generic_barrier)
qed

theorem roundtrip_fidelity_witness:
  "(\<exists>g. to_generic (Contract_init FORWARD ''Apple'' FWD SHORT 1 2 1) = Inr g \<and>
        GenericContract_payoff g (Spot 0.5) = Inr (Some 0.5)) \<and>
   (\<exists>g. to_generic (Contract_init EUROPEANOPTION ''OTP'' CALL LONG 1 2 1) = Inr g \<and>
        GenericContract_payoff g (Spot 2.5) = Inr (Some 1.5)) \<and>
   (\<exists>g. to_generic (Contract_init AMERICANOPTION ''Tesla'' CALL LONG 1 2 1) = Inr g \<and>
        GenericContract_payoff g (Spot 3) = Inr (Some 2)) \<and>
   (\<exists>g. to_generic (Contract_init EUROPEANDIGITALOPTION ''Mol'' CALL LONG 1 2 1) = Inr g \<and>
        GenericContract_payoff g (Spot 1.5) = Inr (Some 1)) \<and>
   (\<exists>g. to_generic (Contract_init ASIANOPTION ''Microsoft'' CALL LONG 0.8 2 1) = Inr g \<and>
        GenericContract_payoff g (Prices [-1, -0.5, 0, 0.5, 1, 1.5, 2, 2.5, 3]) =
          Inr (Some 0.2)) \<and>
   (\<exists>g. barrier_to_generic
          (Contract.extend
             (Contract_init EUROPEANBARRIEROPTION ''Deutshe Bank'' CALL LONG 1.5 2 1)
             (BarrierContract.fields (Level 2.7) (Some UP) (Some IN))) = Inr g \<and>
        GenericContract_payoff g (Prices [-1, -0.5, 0, 0.5, 1, 1.5, 2, 2.5, 3]) =
          Inr (Some 1.5))"
proof (intro conjI)
  let ?path = "Prices [-1, -0.5, 0, 0.5, 1, 1.5, 2, 2.5, 3]"
  let ?t1 = "Contract_init FORWARD ''Apple'' FWD SHORT 1 2 1"
  have "ForwardContract ''Apple'' SHORT 1 2 = Inr ?t1"
    by (simp add: ForwardContract_def)
  moreover have "ForwardContract_payoff ?t1 (Spot 0.5) = Inr 0.5"
    by (simp add: ForwardContract_payoff_def Contract_init_def)
  ultimately show "\<exists>g. to_generic ?t1 = Inr g \<and>
        GenericContract_payoff g (Spot 0.5) = Inr (Some 0.5)"
    using roundtrip_fidelity [where und = "''Apple''" and longshort = SHORT and strk = 1
        and exp' = 2 and c = ?t1 and x = "Spot 0.5"]
    by simp
next
  let ?t2 = "Contract_init EUROPEANOPTION ''OTP'' CALL LONG 1 2 1"
  have "EuropeanContract ''OTP'' CALL LONG 1 2 = Inr ?t2"
    by (simp add: EuropeanContract_def)
  moreover have "EuropeanContract_payoff ?t2 (Spot 2.5) = Inr 1.5"
    by (simp add: EuropeanContract_payoff_def Contract_init_def)
  ultimately show "\<exists>g. to_generic ?t2 = Inr g \<and>
        GenericContract_payoff g (Spot 2.5) = Inr (Some 1.5)"
    using roundtrip_fidelity [where und = "''OTP''" and dtype = CALL and longshort = LONG
        and strk = 1 and exp' = 2 and c = ?t2 and x = "Spot 2.5"]
    by simp
next
  let ?t3 = "Contract_init AMERICANOPTION ''Tesla'' CALL LONG 1 2 1"
  have "AmericanContract ''Tesla'' CALL LONG 1 2 = Inr ?t3"
    by (simp add: AmericanContract_def)
  moreover have "AmericanContract_payoff ?t3 (Spot 3) = Inr 2"
    by (simp add: AmericanContract_payoff_def Contract_init_def)
  ultimately show "\<exists>g. to_generic ?t3 = Inr g \<and>
        GenericContract_payoff g (Spot 3) = Inr (Some 2)"
    using roundtrip_fidelity [where und = "''Tesla''" and dtype = CALL and longshort = LONG
        and strk = 1 and exp' = 2 and c = ?t3 and x = "Spot 3"]
    by simp
next
  let ?t4 = "Contract_init EUROPEANDIGITALOPTION ''Mol'' CALL LONG 1 2 1"
  have "EuropeanDigitalContract ''Mol'' CALL LONG 1 2 = Inr ?t4"
    by (simp add: EuropeanDigitalContract_def)
  moreover have "EuropeanDigitalContract_payoff ?t4 (Spot 1.5) = Inr 1"
    by (simp add: EuropeanDigitalContract_payoff_def Contract_init_def)
  ultimately show "\<exists>g. to_generic ?t4 = Inr g \<and>
        GenericContract_payoff g (Spot 1.5) = Inr (Some 1)"
    using roundtrip_fidelity [where und = "''Mol''" and dtype = CALL and longshort = LONG
        and strk = 1 and exp' = 2 and c = ?t4 and x = "Spot 1.5"]
    by simp
next
  let ?path = "Prices [-1, -0.5, 0, 0.5, 1, 1.5, 2, 2.5, 3]"
  let ?t5 = "Contract_init ASIANOPTION ''Microsoft'' CALL LONG 0.8 2 1"
  have "AsianContract ''Microsoft'' CALL LONG 0.8 2 = Inr ?t5"
    by (simp add: AsianContract_def)
  moreover have "AsianContract_payoff ?t5 ?path = Inr 0.2"
    by (simp add: AsianContract_payoff_def Contract_init_def mean_def)
  ultimately show "\<exists>g. to_generic ?t5 = Inr g \<and>
        GenericContract_payoff g ?path = Inr (Some 0.2)"
    using roundtrip_fidelity [where und = "''Microsoft''" and dtype = CALL and longshort = LONG
        and strk = "0.8" and exp' = 2 and c = ?t5 and x = ?path]
    by simp
next
  let ?path = "Prices [-1, -0.5, 0, 0.5, 1, 1.5, 2, 2.5, 3]"
  let ?t6 = "Contract.extend
             (Contract_init EUROPEANBARRIEROPTION ''Deutshe Bank'' CALL LONG 1.5 2 1)
             (BarrierContract.fields (Level 2.7) (Some UP) (Some IN))"
  have "EuropeanBarrierContract ''Deutshe Bank'' CALL LONG 1.5 2 (Level 2.7) (Some UP) (Some IN)
          = Inr ?t6"
    by (simp add: EuropeanBarrierContract_def)
  moreover have "EuropeanBarrierContract_payoff ?t6 ?path = Inr 1.5"
    by (simp add: EuropeanBarrierContract_payoff_def barrier_mult_def is_breached_def
          last_price_def)
  ultimately show "\<exists>g. barrier_to_generic ?t6 = Inr g \<and>
        GenericContract_payoff g ?path = Inr (Some 1.5)"
    using roundtrip_fidelity [where und = "''Deutshe Bank''" and dtype = CALL
        and longshort = LONG and strk = "1.5" and exp' = 2 and barr = "Level 2.7"
        and ud = "Some UP" and io = "Some IN" and bc = ?t6 and x = ?path]
    by simp
qed

section \<open>Validation at construction\<close>

text \<open>
  C4. Constructing a \<open>EuropeanContract\<close> with derivative type FWD raises the error of
  \<open>_raise_incorrect_derivative_type\<close>; constructing a \<open>EuropeanBarrierContract\<close> with an
  activation outside IN and OUT raises one of the three validation errors, the one about
  the activation when derivative type and direction are valid. These errors are raised at
  construction only: \<open>payoff\<close> of a constructed contract never raises one.
\<close>

theorem construction_validation:
  "EuropeanContract und FWD longshort strk exp' =
     Inl (TypeError ''Derivative type of EuropeanContract must be CALL or PUT'') \<and>
   (io \<notin> {Some IN, Some OUT} \<longrightarrow>
      (\<exists>msg. EuropeanBarrierContract und dtype longshort strk exp' barr ud io =
               Inl (TypeError msg))) \<and>
   (dtype \<in> {CALL, PUT} \<and> ud \<in> {Some UP, Some DOWN} \<and> io \<notin> {Some IN, Some OUT} \<longrightarrow>
      EuropeanBarrierContract und dtype longshort strk exp' barr ud io =
        Inl (TypeError ''Inout parameter of EuropeanBarrierContract must be IN or OUT'')) \<and>
   (EuropeanContract und dtype longshort strk exp' = Inr c \<longrightarrow>
      (\<forall>x msg. EuropeanContract_payoff c x \<noteq> Inl (TypeError msg))) \<and>
   (EuropeanBarrierContract und dtype longshort strk exp' barr ud io = Inr bc \<longrightarrow>
      (\<forall>x msg. EuropeanBarrierContract_payoff bc x \<noteq> Inl (TypeError msg)))"
proof (intro conjI impI allI)
  show "EuropeanContract und FWD longshort strk exp' =
     Inl (TypeError ''Derivative type of EuropeanContract must be CALL or PUT'')"
    by (simp add: EuropeanContract_def raise_incorrect_derivative_type_def)
next
  assume "io \<notin> {Some IN, Some OUT}"
  then show "\<exists>msg. EuropeanBarrierContract und dtype longshort strk exp' barr ud io =
               Inl (TypeError msg)"
    by (simp add: EuropeanBarrierContract_def raise_incorrect_derivative_type_def
          raise_incorrect_barrier_updown_type_def raise_incorrect_barrier_inout_type_def)
next
  assume "dtype \<in> {CALL, PUT} \<and> ud \<in> {Some UP, Some DOWN} \<and> io \<notin> {Some IN, Some OUT}"
  then show "EuropeanBarrierContract und dtype longshort strk exp' barr ud io =
        Inl (TypeError ''Inout parameter of EuropeanBarrierContract must be IN or OUT'')"
    by (auto simp add: EuropeanBarrierContract_def raise_incorrect_barrier_inout_type_def)
next
  fix x msg
  assume "EuropeanContract und dtype longshort strk exp' = Inr c"
  from vanilla_Inr(1) [OF this]
  show "EuropeanContract_payoff c x \<noteq> Inl (TypeError msg)"
    by (auto simp add: EuropeanContract_payoff_def split: price_input.splits)
next
  fix x msg
  assume "EuropeanBarrierContract und dtype longshort strk exp' barr ud io = Inr bc"
  from EuropeanBarrierContract_Inr [OF this]
  show "EuropeanBarrierContract_payoff bc x \<noteq> Inl (TypeError msg)"
    by (auto simp add: EuropeanBarrierContract_payoff_def last_price_def Let_def
          split: price_input.splits)
qed

theorem construction_validation_witness:
  "EuropeanBarrierContract ''Deutshe Bank'' CALL LONG 1.5 2 (Level 2.7) (Some UP) None =
     Inl (TypeError ''Inout parameter of EuropeanBarrierContract must be IN or OUT'') \<and>
   EuropeanBarrierContract ''Deutshe Bank'' FWD LONG 1.5 2 (Level 2.7) (Some UP) None =
     Inl (TypeError ''Derivative type of EuropeanBarrierContract must be CALL or PUT'') \<and>
   EuropeanContract_payoff (Contract_init EUROPEANOPTION ''OTP'' CALL LONG 1 2 1)
     (Prices [1, 2]) = Inl OperandTypeError \<and>
   EuropeanBarrierContract_payoff
     (Contract.extend
        (Contract_init EUROPEANBARRIEROPTION ''Deutshe Bank'' CALL LONG 1.5 2 1)
        (BarrierContract.fields (Level 2.7) (Some UP) (Some IN)))
     (Prices []) = Inl IndexError"
proof -
  let ?e = "Contract_init EUROPEANOPTION ''OTP'' CALL LONG 1 2 1"
  let ?u = "Contract.extend
            (Contract_init EUROPEANBARRIEROPTION ''Deutshe Bank'' CALL LONG 1.5 2 1)
            (BarrierContract.fields (Level 2.7) (Some UP) (Some IN))"
  have e: "EuropeanContract ''OTP'' CALL LONG 1 2 = Inr ?e"
    by (simp add: EuropeanContract_def)
  have u: "EuropeanBarrierContract ''Deutshe Bank'' CALL LONG 1.5 2 (Level 2.7) (Some UP)
             (Some IN) = Inr ?u"
    by (simp add: EuropeanBarrierContract_def)
  have n: "None \<notin> {Some IN, Some OUT}" by simp
  have 1: "EuropeanBarrierContract ''Deutshe Bank'' CALL LONG 1.5 2 (Level 2.7) (Some UP) None =
     Inl (TypeError ''Inout parameter of EuropeanBarrierContract must be IN or OUT'')"
    using n construction_validation [where dtype = CALL and ud = "Some UP" and io = None
        and und = "''Deutshe Bank''" and longshort = LONG and strk = "1.5" and exp' = 2
        and barr = "Level 2.7"]
    by simp
  have 2: "EuropeanBarrierContract ''Deutshe Bank'' FWD LONG 1.5 2 (Level 2.7) (Some UP) None =
     Inl (TypeError ''Derivative type of EuropeanBarrierContract must be CALL or PUT'')"
    using n construction_validation [where dtype = FWD and ud = "Some UP" and io = None
        and und = "''Deutshe Bank''" and longshort = LONG and strk = "1.5" and exp' = 2
        and barr = "Level 2.7"]
    by (simp add: EuropeanBarrierContract_def raise_incorrect_derivative_type_def)
  have 3: "EuropeanContract_payoff ?e (Prices [1, 2]) = Inl OperandTypeError"
    using e construction_validation [where dtype = CALL and und = "''OTP''" and longshort = LONG
        and strk = 1 and exp' = 2 and c = ?e]
    by (simp add: EuropeanContract_payoff_def)
  have 4: "EuropeanBarrierContract_payoff ?u (Prices []) = Inl IndexError"
    using u construction_validation [where dtype = CALL and ud = "Some UP" and io = "Some IN"
        and und = "''Deutshe Bank''" and longshort = LONG and strk = "1.5" and exp' = 2
        and barr = "Level 2.7" and bc = ?u]
    by (simp add: EuropeanBarrierContract_payoff_def last_price_def)
  from 1 2 3 4 show ?thesis by simp
qed

section \<open>Sign symmetry\<close>

text \<open>
  C5. For each concrete class and every price input, the payoff of the contract built
  with position SHORT is the negation of the payoff of the contract built with position
  LONG from the same other arguments (and raises where that one raises). The same holds
  for the generic contract, which returns \<open>None\<close> for both positions where it falls
  through.
\<close>

theorem sign_symmetry:
  "(\<exists>cl cs. ForwardContract und LONG strk exp' = Inr cl \<and>
            ForwardContract und SHORT strk exp' = Inr cs \<and>
            ForwardContract_payoff cs x = map_sum id uminus (ForwardContract_payoff cl x)) \<and>
   (EuropeanContract und dtype LONG strk exp' = Inr cl \<longrightarrow>
      (\<exists>cs. EuropeanContract und dtype SHORT strk exp' = Inr cs \<and>
            EuropeanContract_payoff cs x = map_sum id uminus (EuropeanContract_payoff cl x))) \<and>
   (AmericanContract und dtype LONG strk exp' = Inr cl \<longrightarrow>
      (\<exists>cs. AmericanContract und dtype SHORT strk exp' = Inr cs \<and>
            AmericanContract_payoff cs x = map_sum id uminus (AmericanContract_payoff cl x))) \<and>
   (EuropeanDigitalContract und dtype LONG strk exp' = Inr cl \<longrightarrow>
      (\<exists>cs. EuropeanDigitalContract und dtype SHORT strk exp' = Inr cs \<and>
            EuropeanDigitalContract_payoff cs x =
              map_sum id uminus (EuropeanDigitalContract_payoff cl x))) \<and>
   (AsianContract und dtype LONG strk exp' = Inr cl \<longrightarrow>
      (\<exists>cs. AsianContract und dtype SHORT strk exp' = Inr cs \<and>
            AsianContract_payoff cs x = map_sum id uminus (AsianContract_payoff cl x))) \<and>
   (EuropeanBarrierContract und dtype LONG strk exp' barr ud io = Inr bl \<longrightarrow>
      (\<exists>bs. EuropeanBarrierContract und dtype SHORT strk exp' barr ud io = Inr bs \<and>
            EuropeanBarrierContract_payoff bs x =
              map_sum id uminus (EuropeanBarrierContract_payoff bl x))) \<and>
   (\<exists>gl gs. GenericContract kind und dtype LONG strk exp' barr ud io = Inr gl \<and>
            GenericContract kind und dtype SHORT strk exp' barr ud io = Inr gs \<and>
            GenericContract_payoff gs x =
              map_sum id (map_option uminus) (GenericContract_payoff gl x))"
proof (intro conjI impI)
  show "\<exists>cl cs. ForwardContract und LONG strk exp' = Inr cl \<and>
            ForwardContract und SHORT strk exp' = Inr cs \<and>
            ForwardContract_payoff cs x = map_sum id uminus (ForwardContract_payoff cl x)"
    by (simp add: ForwardContract_def ForwardContract_payoff_def split: price_input.splits)
next
  assume "EuropeanContract und dtype LONG strk exp' = Inr cl"
  from vanilla_Inr(1) [OF this]
  show "\<exists>cs. EuropeanContract und dtype SHORT strk exp' = Inr cs \<and>
            EuropeanContract_payoff cs x = map_sum id uminus (EuropeanContract_payoff cl x)"
    by (auto simp add: EuropeanContract_def EuropeanContract_payoff_def
          split: price_input.splits)
next
  assume "AmericanContract und dtype LONG strk exp' = Inr cl"
  from vanilla_Inr(2) [OF this]
  show "\<exists>cs. AmericanContract und dtype SHORT strk exp' = Inr cs \<and>
            AmericanContract_payoff cs x = map_sum id uminus (AmericanContract_payoff cl x)"
    by (auto simp add: AmericanContract_def AmericanContract_payoff_def
          split: price_input.splits)
next
  assume "EuropeanDigitalContract und dtype LONG strk exp' = Inr cl"
  from vanilla_Inr(3) [OF this]
  show "\<exists>cs. EuropeanDigitalContract und dtype SHORT strk exp' = Inr cs \<and>
            EuropeanDigitalContract_payoff cs x =
              map_sum id uminus (EuropeanDigitalContract_payoff cl x)"
    by (auto simp add: EuropeanDigitalContract_def EuropeanDigitalContract_payoff_def
          split: price_input.splits)
next
  assume "AsianContract und dtype LONG strk exp' = Inr cl"
  from vanilla_Inr(4) [OF this]
  show "\<exists>cs. AsianContract und dtype SHORT strk exp' = Inr cs \<and>
            AsianContract_payoff cs x = map_sum id uminus (AsianContract_payoff cl x)"
    by (auto simp add: AsianContract_def AsianContract_payoff_def
          split: price_input.splits sum.splits)
next
  assume "EuropeanBarrierContract und dtype LONG strk exp' barr ud io = Inr bl"
  from EuropeanBarrierContract_Inr [OF this]
  show "\<exists>bs. EuropeanBarrierContract und dtype SHORT strk exp' barr ud io = Inr bs \<and>
            EuropeanBarrierContract_payoff bs x =
              map_sum id uminus (EuropeanBarrierContract_payoff bl x)"
    by (auto simp add: EuropeanBarrierContract_def EuropeanBarrierContract_payoff_def Let_def
          barrier_mult_extend [of "Contract_init EUROPEANBARRIEROPTION und dtype SHORT strk exp' 1"
             barr ud io _ "Contract_init EUROPEANBARRIEROPTION und dtype LONG strk exp' 1"]
          split: price_input.splits sum.splits)
next
  let ?gl = "Contract.extend (Contract_init kind und dtype LONG strk exp' 1)
               (BarrierContract.fields barr ud io)"
  let ?gs = "Contract.extend (Contract_init kind und dtype SHORT strk exp' 1)
               (BarrierContract.fields barr ud io)"
  have "GenericContract_payoff ?gs x =
          map_sum id (map_option uminus) (GenericContract_payoff ?gl x)"
    by (auto simp add: GenericContract_payoff_def Let_def
          barrier_mult_def is_breached_def
          split: price_input.splits sum.splits)
  then show "\<exists>gl gs. GenericContract kind und dtype LONG strk exp' barr ud io = Inr gl \<and>
            GenericContract kind und dtype SHORT strk exp' barr ud io = Inr gs \<and>
            GenericContract_payoff gs x =
              map_sum id (map_option uminus) (GenericContract_payoff gl x)"
    by (simp add: GenericContract_Inr)
qed

theorem sign_symmetry_witness:
  "EuropeanContract_payoff (Contract_init EUROPEANOPTION ''OTP'' CALL LONG 1 2 1) (Spot 2.5)
     = Inr 1.5 \<and>
   EuropeanContract_payoff (Contract_init EUROPEANOPTION ''OTP'' CALL SHORT 1 2 1) (Spot 2.5)
     = Inr (- 1.5) \<and>
   AmericanContract_payoff (Contract_init AMERICANOPTION ''Tesla'' PUT SHORT 1 2 1) (Spot 0.5)
     = Inr (- 0.5) \<and>
   EuropeanDigitalContract_payoff (Contract_init EUROPEANDIGITALOPTION ''Mol'' CALL SHORT 1 2 1)
     (Spot 1.5) = Inr (- 1) \<and>
   AsianContract_payoff (Contract_init ASIANOPTION ''Microsoft'' CALL SHORT 0.8 2 1)
     (Prices [-1, -0.5, 0, 0.5, 1, 1.5, 2, 2.5, 3]) = Inr (- 0.2) \<and>
   EuropeanBarrierContract_payoff
     (Contract.extend
        (Contract_init EUROPEANBARRIEROPTION ''Deutshe Bank'' CALL SHORT 1.5 2 1)
        (BarrierContract.fields (Level 2.7) (Some UP) (Some IN)))
     (Prices [-1, -0.5, 0, 0.5, 1, 1.5, 2, 2.5, 3]) = Inr (- 1.5)"
proof -
  let ?path = "Prices [-1, -0.5, 0, 0.5, 1, 1.5, 2, 2.5, 3]"
  let ?el = "Contract_init EUROPEANOPTION ''OTP'' CALL LONG 1 2 1"
  let ?al = "Contract_init AMERICANOPTION ''Tesla'' PUT LONG 1 2 1"
  let ?dl = "Contract_init EUROPEANDIGITALOPTION ''Mol'' CALL LONG 1 2 1"
  let ?sl = "Contract_init ASIANOPTION ''Microsoft'' CALL LONG 0.8 2 1"
  let ?bl = "Contract.extend
        (Contract_init EUROPEANBARRIEROPTION ''Deutshe Bank'' CALL LONG 1.5 2 1)
        (BarrierContract.fields (Level 2.7) (Some UP) (Some IN))"
  have el: "EuropeanContract ''OTP'' CALL LONG 1 2 = Inr ?el"
    and es: "EuropeanContract ''OTP'' CALL SHORT 1 2 =
               Inr (Contract_init EUROPEANOPTION ''OTP'' CALL SHORT 1 2 1)"
    and pl: "EuropeanContract_payoff ?el (Spot 2.5) = Inr 1.5"
    by (simp_all add: EuropeanContract_def EuropeanContract_payoff_def Contract_init_def)
  have al: "AmericanContract ''Tesla'' PUT LONG 1 2 = Inr ?al"
    and as: "AmericanContract ''Tesla'' PUT SHORT 1 2 =
               Inr (Contract_init AMERICANOPTION ''Tesla'' PUT SHORT 1 2 1)"
    and pa: "AmericanContract_payoff ?al (Spot 0.5) = Inr 0.5"
    by (simp_all add: AmericanContract_def AmericanContract_payoff_def Contract_init_def)
  have dl: "EuropeanDigitalContract ''Mol'' CALL LONG 1 2 = Inr ?dl"
    and ds: "EuropeanDigitalContract ''Mol'' CALL SHORT 1 2 =
               Inr (Contract_init EUROPEANDIGITALOPTION ''Mol'' CALL SHORT 1 2 1)"
    and pd: "EuropeanDigitalContract_payoff ?dl (Spot 1.5) = Inr 1"
    by (simp_all add: EuropeanDigitalContract_def EuropeanDigitalContract_payoff_def
          Contract_init_def)
  have sl: "AsianContract ''Microsoft'' CALL LONG 0.8 2 = Inr ?sl"
    and ss: "AsianContract ''Microsoft'' CALL SHORT 0.8 2 =
               Inr (Contract_init ASIANOPTION ''Microsoft'' CALL SHORT 0.8 2 1)"
    and ps: "AsianContract_payoff ?sl ?path = Inr 0.2"
    by (simp_all add: AsianContract_def AsianContract_payoff_def Contract_init_def mean_def)
  have bl: "EuropeanBarrierContract ''Deutshe Bank'' CALL LONG 1.5 2 (Level 2.7) (Some UP)
              (Some IN) = Inr ?bl"
    and bs: "EuropeanBarrierContract ''Deutshe Bank'' CALL SHORT 1.5 2 (Level 2.7) (Some UP)
              (Some IN) =
             Inr (Contract.extend
                    (Contract_init EUROPEANBARRIEROPTION ''Deutshe Bank'' CALL SHORT 1.5 2 1)
                    (BarrierContract.fields (Level 2.7) (Some UP) (Some IN)))"
    and pb: "EuropeanBarrierContract_payoff ?bl ?path = Inr 1.5"
    by (simp_all add: EuropeanBarrierContract_def EuropeanBarrierContract_payoff_def
          barrier_mult_def is_breached_def last_price_def)
  have 1: "EuropeanContract_payoff (Contract_init EUROPEANOPTION ''OTP'' CALL SHORT 1 2 1)
             (Spot 2.5) = Inr (- 1.5)"
    using el es pl sign_symmetry [where und = "''OTP''" and dtype = CALL and strk = 1
        and exp' = 2 and cl = ?el and x = "Spot 2.5"]
    by simp
  have 2: "AmericanContract_payoff (Contract_init AMERICANOPTION ''Tesla'' PUT SHORT 1 2 1)
             (Spot 0.5) = Inr (- 0.5)"
    using al as pa sign_symmetry [where und = "''Tesla''" and dtype = PUT and strk = 1
        and exp' = 2 and cl = ?al and x = "Spot 0.5"]
    by simp
  have 3: "EuropeanDigitalContract_payoff
             (Contract_init EUROPEANDIGITALOPTION ''Mol'' CALL SHORT 1 2 1) (Spot 1.5)
           = Inr (- 1)"
    using dl ds pd sign_symmetry [where und = "''Mol''" and dtype = CALL and strk = 1
        and exp' = 2 and cl = ?dl and x = "Spot 1.5"]
    by simp
  have 4: "AsianContract_payoff (Contract_init ASIANOPTION ''Microsoft'' CALL SHORT 0.8 2 1)
             ?path = Inr (- 0.2)"
    using sl ss ps sign_symmetry [where und = "''Microsoft''" and dtype = CALL and strk = "0.8"
        and exp' = 2 and cl = ?sl and x = ?path]
    by simp
  have 5: "EuropeanBarrierContract_payoff
     (Contract.extend
        (Contract_init EUROPEANBARRIEROPTION ''Deutshe Bank'' CALL SHORT 1.5 2 1)
        (BarrierContract.fields (Level 2.7) (Some UP) (Some IN))) ?path = Inr (- 1.5)"
    using bl bs pb sign_symmetry [where und = "''Deutshe Bank''" and dtype = CALL
        and strk = "1.5" and exp' = 2 and barr = "Level 2.7" and ud = "Some UP"
        and io = "Some IN" and bl = ?bl and x = ?path]
    by simp
  from pl 1 2 3 4 5 show ?thesis by simp
qed

section \<open>Timelines\<close>

lemma timeline_length:
  "length (PathDependentContract_get_timeline c) = nat (num_mon c)"
  by (simp add: PathDependentContract_get_timeline_def)

lemma timeline_last:
  assumes "1 \<le> num_mon c"
  shows "PathDependentContract_get_timeline c \<noteq> [] \<and>
         last (PathDependentContract_get_timeline c) = expiry c"
proof -
  obtain n where n: "nat (num_mon c) = Suc n"
    using assms by (cases "nat (num_mon c)") auto
  then have m: "real_of_int (num_mon c) = real n + 1"
    using assms by linarith
  show ?thesis
    by (simp add: PathDependentContract_get_timeline_def n m del: upt_Suc)
       (simp add: add.commute)
qed

lemma timeline_increasing:
  assumes "1 \<le> num_mon c" and "0 < expiry c"
  shows "sorted_wrt (<) (PathDependentContract_get_timeline c)"
proof -
  have pos: "0 < real_of_int (num_mon c)" using assms(1) by simp
  have "(real i + 1) / real_of_int (num_mon c) * expiry c <
        (real j + 1) / real_of_int (num_mon c) * expiry c" if "i < j" for i j :: nat
    using that pos assms(2) by (simp add: divide_strict_right_mono)
  then show ?thesis
    by (simp add: PathDependentContract_get_timeline_def sorted_wrt_map sorted_wrt_iff_nth_less)
qed

text \<open>
  C6. The timeline of every vanilla contract is the one-element list of its expiry. The
  timeline of every path-dependent contract has \<open>num_mon\<close> elements, is strictly
  increasing and ends with the expiry: for the contracts the constructors build, whose
  \<open>num_mon\<close> is the default 1, and for the comprehension of \<open>get_timeline\<close> at any
  \<open>num_mon\<close> of at least 1 with a positive expiry.
\<close>

theorem timeline_shape:
  "(ForwardContract und longshort strk exp' = Inr c \<or>
    EuropeanContract und dtype longshort strk exp' = Inr c \<or>
    AmericanContract und dtype longshort strk exp' = Inr c \<or>
    EuropeanDigitalContract und dtype longshort strk exp' = Inr c \<longrightarrow>
      VanillaContract_get_timeline c = [exp'] \<and> expiry c = exp' \<and>
      length (VanillaContract_get_timeline c) = 1) \<and>
   (AsianContract und dtype longshort strk exp' = Inr c \<longrightarrow>
      length (PathDependentContract_get_timeline c) = nat (num_mon c) \<and>
      sorted_wrt (<) (PathDependentContract_get_timeline c) \<and>
      PathDependentContract_get_timeline c \<noteq> [] \<and>
      last (PathDependentContract_get_timeline c) = expiry c \<and> expiry c = exp') \<and>
   (EuropeanBarrierContract und dtype longshort strk exp' barr ud io = Inr bc \<or>
    GenericContract kind und dtype longshort strk exp' barr ud io = Inr bc \<longrightarrow>
      length (PathDependentContract_get_timeline bc) = nat (num_mon bc) \<and>
      sorted_wrt (<) (PathDependentContract_get_timeline bc) \<and>
      PathDependentContract_get_timeline bc \<noteq> [] \<and>
      last (PathDependentContract_get_timeline bc) = expiry bc \<and> expiry bc = exp') \<and>
   (1 \<le> num_mon pc \<and> 0 < expiry pc \<longrightarrow>
      length (PathDependentContract_get_timeline pc) = nat (num_mon pc) \<and>
      sorted_wrt (<) (PathDependentContract_get_timeline pc) \<and>
      PathDependentContract_get_timeline pc \<noteq> [] \<and>
      last (PathDependentContract_get_timeline pc) = expiry pc)"
proof (intro conjI impI)
  assume "ForwardContract und longshort strk exp' = Inr c \<or>
    EuropeanContract und dtype longshort strk exp' = Inr c \<or>
    AmericanContract und dtype longshort strk exp' = Inr c \<or>
    EuropeanDigitalContract und dtype longshort strk exp' = Inr c"
  then have e: "expiry c = exp'"
    by (auto simp: ForwardContract_def dest: vanilla_Inr)
  then show "VanillaContract_get_timeline c = [exp']" "expiry c = exp'"
    "length (VanillaContract_get_timeline c) = 1"
    by (simp_all add: VanillaContract_get_timeline_def)
next
  assume "AsianContract und dtype longshort strk exp' = Inr c"
  from vanilla_Inr(4) [OF this]
  have n: "num_mon c = 1" and e: "expiry c = exp'" by simp_all
  show "length (PathDependentContract_get_timeline c) = nat (num_mon c)"
    by (rule timeline_length)
  show "sorted_wrt (<) (PathDependentContract_get_timeline c)"
    by (simp add: PathDependentContract_get_timeline_def n)
  show "PathDependentContract_get_timeline c \<noteq> []"
    "last (PathDependentContract_get_timeline c) = expiry c"
    using timeline_last [of c] n by simp_all
  show "expiry c = exp'" by (rule e)
next
  assume "EuropeanBarrierContract und dtype longshort strk exp' barr ud io = Inr bc \<or>
    GenericContract kind und dtype longshort strk exp' barr ud io = Inr bc"
  then have n: "num_mon bc = 1" and e: "expiry bc = exp'"
    by (auto simp: GenericContract_Inr dest: EuropeanBarrierContract_Inr)
  show "length (PathDependentContract_get_timeline bc) = nat (num_mon bc)"
    by (rule timeline_length)
  show "sorted_wrt (<) (PathDependentContract_get_timeline bc)"
    by (simp add: PathDependentContract_get_timeline_def n)
  show "PathDependentContract_get_timeline bc \<noteq> []"
    "last (PathDependentContract_get_timeline bc) = expiry bc"
    using timeline_last [of bc] n by simp_all
  show "expiry bc = exp'" by (rule e)
next
  assume h: "1 \<le> num_mon pc \<and> 0 < expiry pc"
  show "length (PathDependentContract_get_timeline pc) = nat (num_mon pc)"
    by (rule timeline_length)
  show "sorted_wrt (<) (PathDependentContract_get_timeline pc)"
    using h by (simp add: timeline_increasing)
  show "PathDependentContract_get_timeline pc \<noteq> []"
    "last (PathDependentContract_get_timeline pc) = expiry pc"
    using timeline_last [of pc] h by simp_all
qed

theorem timeline_shape_witness:
  "VanillaContract_get_timeline (Contract_init EUROPEANOPTION ''OTP'' CALL LONG 1 2 1) = [2] \<and>
   PathDependentContract_get_timeline (Contract_init ASIANOPTION ''Microsoft'' CALL LONG 0.8 2 1)
     = [2] \<and>
   last (PathDependentContract_get_timeline
     (Contract.extend
        (Contract_init EUROPEANBARRIEROPTION ''Deutshe Bank'' CALL LONG 1.5 2 1)
        (BarrierContract.fields (Level 2.7) (Some UP) (Some IN)))) = 2 \<and>
   length (PathDependentContract_get_timeline
             (Contract_init ASIANOPTION ''Microsoft'' CALL LONG 0.8 2 9)) = 9 \<and>
   sorted_wrt (<) (PathDependentContract_get_timeline
             (Contract_init ASIANOPTION ''Microsoft'' CALL LONG 0.8 2 9)) \<and>
   last (PathDependentContract_get_timeline
             (Contract_init ASIANOPTION ''Microsoft'' CALL LONG 0.8 2 9)) = 2"
proof -
  let ?e = "Contract_init EUROPEANOPTION ''OTP'' CALL LONG 1 2 1"
  let ?s = "Contract_init ASIANOPTION ''Microsoft'' CALL LONG 0.8 2 1"
  let ?b = "Contract.extend
        (Contract_init EUROPEANBARRIEROPTION ''Deutshe Bank'' CALL LONG 1.5 2 1)
        (BarrierContract.fields (Level 2.7) (Some UP) (Some IN))"
  let ?n = "Contract_init ASIANOPTION ''Microsoft'' CALL LONG 0.8 2 9"
  have e: "EuropeanContract ''OTP'' CALL LONG 1 2 = Inr ?e"
    by (simp add: EuropeanContract_def)
  have s: "AsianContract ''Microsoft'' CALL LONG 0.8 2 = Inr ?s"
    by (simp add: AsianContract_def)
  have b: "EuropeanBarrierContract ''Deutshe Bank'' CALL LONG 1.5 2 (Level 2.7) (Some UP)
              (Some IN) = Inr ?b"
    by (simp add: EuropeanBarrierContract_def)
  have n: "1 \<le> num_mon ?n \<and> 0 < expiry ?n"
    by (simp add: Contract_init_def)
  have 1: "VanillaContract_get_timeline ?e = [2]"
    using e timeline_shape [where und = "''OTP''" and dtype = CALL and longshort = LONG
        and strk = 1 and exp' = 2 and c = ?e and barr = PosInf and ud = None and io = None
        and bc = ?b and kind = FORWARD and pc = ?n]
    by simp
  have 2: "PathDependentContract_get_timeline ?s = [2]"
    using s timeline_shape [where und = "''Microsoft''" and dtype = CALL and longshort = LONG
        and strk = "0.8" and exp' = 2 and c = ?s and barr = PosInf and ud = None and io = None
        and bc = ?b and kind = FORWARD and pc = ?n]
    by (simp add: PathDependentContract_get_timeline_def)
  have 3: "last (PathDependentContract_get_timeline ?b) = 2"
    using b timeline_shape [where und = "''Deutshe Bank''" and dtype = CALL and longshort = LONG
        and strk = "1.5" and exp' = 2 and barr = "Level 2.7" and ud = "Some UP"
        and io = "Some IN" and bc = ?b and c = ?e and kind = FORWARD and pc = ?n]
    by simp
  have 4: "length (PathDependentContract_get_timeline ?n) = 9 \<and>
           sorted_wrt (<) (PathDependentContract_get_timeline ?n) \<and>
           last (PathDependentContract_get_timeline ?n) = 2"
    using n timeline_shape [where pc = ?n and und = "''Microsoft''" and dtype = CALL
        and longshort = LONG and strk = "0.8" and exp' = 2 and c = ?s and barr = PosInf
        and ud = None and io = None and bc = ?b and kind = FORWARD]
    by simp
  from 1 2 3 4 show ?thesis by simp
qed

section \<open>Digital boundary\<close>

text \<open>
  C7. The payoff of a \<open>EuropeanDigitalContract\<close> at a terminal price equal to the strike
  is 0, for call and put and for both positions: the indicator compares strictly.
\<close>

theorem digital_boundary:
  "EuropeanDigitalContract und dtype longshort strk exp' = Inr c \<Longrightarrow>
   EuropeanDigitalContract_payoff c (Spot strk) = Inr 0"
  by (drule vanilla_Inr) (auto simp: EuropeanDigitalContract_payoff_def)

theorem digital_boundary_witness:
  "EuropeanDigitalContract_payoff (Contract_init EUROPEANDIGITALOPTION ''Mol'' CALL LONG 1 2 1)
     (Spot 1) = Inr 0 \<and>
   EuropeanDigitalContract_payoff (Contract_init EUROPEANDIGITALOPTION ''Mol'' PUT SHORT 1 2 1)
     (Spot 1) = Inr 0"
proof -
  have c: "EuropeanDigitalContract ''Mol'' CALL LONG 1 2 =
             Inr (Contract_init EUROPEANDIGITALOPTION ''Mol'' CALL LONG 1 2 1)"
    and p: "EuropeanDigitalContract ''Mol'' PUT SHORT 1 2 =
             Inr (Contract_init EUROPEANDIGITALOPTION ''Mol'' PUT SHORT 1 2 1)"
    by (simp_all add: EuropeanDigitalContract_def)
  show ?thesis
    using digital_boundary [OF c] digital_boundary [OF p] by simp
qed

section \<open>Rounding to binary64\<close>

text \<open>
  \<open>round_double x\<close> is a multiple of \<open>2 ^ double_exponent x\<close>, the multiple nearest to
  \<open>x\<close>, and the even one of two equally near; for \<open>x\<close> of magnitude at least
  \<open>2 ^ - 1022\<close> the multiples next to \<open>x\<close> have 53 bits.
\<close>

lemma round_half_even_near: "\<bar>of_int (round_half_even y) - y\<bar> \<le> 1 / 2"
  unfolding round_half_even_def Let_def by (auto simp: abs_if) linarith+

lemma round_half_even_nearest: "\<bar>of_int (round_half_even y) - y\<bar> \<le> \<bar>of_int m - y\<bar>"
proof (cases "m = round_half_even y")
  case True
  then show ?thesis by simp
next
  case False
  then have "1 \<le> \<bar>m - round_half_even y\<bar>" by linarith
  then have "1 \<le> \<bar>real_of_int m - of_int (round_half_even y)\<bar>"
    by (metis of_int_1 of_int_abs of_int_diff of_int_le_iff)
  with round_half_even_near [of y] show ?thesis by linarith
qed

lemma round_half_even_tie:
  "y - of_int \<lfloor>y\<rfloor> = 1 / 2 \<Longrightarrow> even (round_half_even y)"
  by (simp add: round_half_even_def Let_def)

lemma pow2_pos: "0 < pow2 e"
  by (simp add: pow2_def)

lemma pow2_powr: "pow2 e = 2 powr real_of_int e"
  by (auto simp: pow2_def powr_realpow [symmetric] powr_minus divide_simps)

lemma pow2_nat: "0 \<le> e \<Longrightarrow> pow2 e = 2 ^ nat e"
  by (simp add: pow2_def)

lemma ilog2_bounds:
  assumes "0 < x"
  shows "pow2 (ilog2 x) \<le> x \<and> x < pow2 (ilog2 x + 1)"
proof (cases "1 \<le> x")
  case True
  define n where "n = \<lfloor>x\<rfloor>"
  have n: "0 < n" using True by (simp add: n_def)
  have k: "1 \<le> bitlen n" using n by (simp add: bitlen_alt_def)
  from bitlen_bounds [OF n]
  have lo: "2 ^ nat (bitlen n - 1) \<le> n" and hi: "n < 2 ^ nat (bitlen n)" by simp_all
  have i: "ilog2 x = bitlen n - 1" using True by (simp add: ilog2_def n_def)
  have "real_of_int (2 ^ nat (bitlen n - 1)) \<le> real_of_int n"
    using lo by (rule of_int_le_iff [THEN iffD2])
  moreover have "real_of_int (2 ^ nat (bitlen n - 1)) = 2 ^ nat (bitlen n - 1)" by simp
  moreover have "real_of_int n \<le> x" by (simp add: n_def)
  ultimately have "2 ^ nat (bitlen n - 1) \<le> x" by linarith
  then have 1: "pow2 (ilog2 x) \<le> x" using k by (simp add: i pow2_nat)
  have "n + 1 \<le> 2 ^ nat (bitlen n)" using hi by simp
  then have "real_of_int (n + 1) \<le> real_of_int (2 ^ nat (bitlen n))"
    by (rule of_int_le_iff [THEN iffD2])
  moreover have "real_of_int (2 ^ nat (bitlen n)) = 2 ^ nat (bitlen n)" by simp
  moreover have "x < real_of_int (n + 1)" by (simp add: n_def)
  ultimately have "x < 2 ^ nat (bitlen n)" by linarith
  then have 2: "x < pow2 (ilog2 x + 1)" using k by (simp add: i pow2_nat)
  from 1 2 show ?thesis ..
next
  case False
  define c where "c = \<lceil>1 / x\<rceil>"
  have y: "1 < 1 / x" using assms False by simp
  then have c: "0 < c - 1" unfolding c_def by linarith
  define k where "k = bitlen (c - 1)"
  have k: "1 \<le> k" using c by (simp add: k_def bitlen_alt_def)
  from bitlen_bounds [OF c]
  have lo: "2 ^ nat (k - 1) \<le> c - 1" and hi: "c - 1 < 2 ^ nat k" by (simp_all add: k_def)
  have i: "ilog2 x = - k" using False by (simp add: ilog2_def c_def k_def)
  have "c \<le> 2 ^ nat k" using hi by simp
  then have "real_of_int c \<le> real_of_int (2 ^ nat k)" by (rule of_int_le_iff [THEN iffD2])
  also have "\<dots> = 2 ^ nat k" by simp
  finally have "real_of_int c \<le> 2 ^ nat k" .
  moreover have "1 / x \<le> of_int c" by (simp add: c_def)
  ultimately have "1 / x \<le> 2 ^ nat k" by linarith
  then have 1: "1 / 2 ^ nat k \<le> x" using assms by (simp add: field_simps)
  have "real_of_int (2 ^ nat (k - 1)) \<le> real_of_int (c - 1)"
    using lo by (rule of_int_le_iff [THEN iffD2])
  moreover have "real_of_int (2 ^ nat (k - 1)) = 2 ^ nat (k - 1)" by simp
  moreover have "real_of_int (c - 1) < 1 / x" unfolding c_def by linarith
  ultimately have "2 ^ nat (k - 1) < 1 / x" by linarith
  then have 2: "x < 1 / 2 ^ nat (k - 1)" using assms by (simp add: field_simps)
  have p1: "pow2 (- k) = 1 / 2 ^ nat k" using k by (simp add: pow2_def)
  have p2: "pow2 (- k + 1) = 1 / 2 ^ nat (k - 1)"
    using k by (cases "k = 1") (auto simp add: pow2_def algebra_simps)
  show ?thesis unfolding i p1 p2 by (intro conjI) (rule 1, rule 2)
qed

lemma round_double_nearest:
  "\<bar>round_double x - x\<bar> \<le> \<bar>of_int m * pow2 (double_exponent x) - x\<bar>"
proof (cases "x = 0")
  case True
  then show ?thesis by (simp add: round_double_def)
next
  case False
  let ?p = "pow2 (double_exponent x)"
  have p: "0 < ?p" by (rule pow2_pos)
  have "\<bar>of_int (round_half_even (x / ?p)) - x / ?p\<bar> \<le> \<bar>of_int m - x / ?p\<bar>"
    by (rule round_half_even_nearest)
  then have "\<bar>of_int (round_half_even (x / ?p)) - x / ?p\<bar> * ?p \<le> \<bar>of_int m - x / ?p\<bar> * ?p"
    using p by (simp add: mult_right_mono)
  moreover have "\<bar>a - x / ?p\<bar> * ?p = \<bar>a * ?p - x\<bar>" for a :: real
  proof -
    have "\<bar>a - x / ?p\<bar> * ?p = \<bar>(a - x / ?p) * ?p\<bar>" using p by (simp add: abs_mult)
    also have "(a - x / ?p) * ?p = a * ?p - x" using p by (simp add: field_simps)
    finally show ?thesis .
  qed
  ultimately show ?thesis using False by (simp add: round_double_def)
qed

lemma pow2_add: "pow2 (a + b) = pow2 a * pow2 b"
  by (simp add: pow2_powr powr_add)

lemma pow2_less_iff: "pow2 a < pow2 b \<longleftrightarrow> a < b"
  by (simp add: pow2_powr)

lemma double_significand:
  assumes "pow2 (- 1022) \<le> \<bar>x\<bar>"
  shows "2 ^ 52 \<le> \<bar>x / pow2 (double_exponent x)\<bar> \<and> \<bar>x / pow2 (double_exponent x)\<bar> < 2 ^ 53"
proof -
  let ?i = "ilog2 \<bar>x\<bar>"
  have pos: "0 < \<bar>x\<bar>" using assms pow2_pos [of "- 1022"] by linarith
  from ilog2_bounds [OF pos]
  have lo: "pow2 ?i \<le> \<bar>x\<bar>" and hi: "\<bar>x\<bar> < pow2 (?i + 1)" by simp_all
  from assms hi have "pow2 (- 1022) < pow2 (?i + 1)" by linarith
  then have "- 1022 \<le> ?i" by (simp add: pow2_less_iff)
  then have e: "double_exponent x = ?i - 52" by (simp add: double_exponent_def)
  let ?p = "pow2 (?i - 52)"
  have p: "0 < ?p" by (rule pow2_pos)
  have n52: "pow2 52 = 2 ^ 52" and n53: "pow2 53 = 2 ^ 53" by (simp_all add: pow2_def)
  have "52 + (?i - 52) = ?i" and "53 + (?i - 52) = ?i + 1" by simp_all
  with pow2_add [of 52 "?i - 52"] pow2_add [of 53 "?i - 52"]
  have a: "pow2 ?i = 2 ^ 52 * ?p" and b: "pow2 (?i + 1) = 2 ^ 53 * ?p"
    by (simp_all only: n52 n53)
  have "2 ^ 52 * ?p \<le> \<bar>x\<bar>" using lo a by simp
  then have 1: "2 ^ 52 \<le> \<bar>x\<bar> / ?p" using p by (simp add: field_simps)
  have "\<bar>x\<bar> < 2 ^ 53 * ?p" using hi b by simp
  then have 2: "\<bar>x\<bar> / ?p < 2 ^ 53" using p by (simp add: field_simps)
  have eq: "\<bar>x / ?p\<bar> = \<bar>x\<bar> / ?p" using p by (simp add: abs_divide)
  show ?thesis unfolding e eq by (intro conjI) (rule 1, rule 2)
qed

text \<open>
  Rounding commutes with negation, so the payoffs on floats keep the sign symmetry of the
  payoffs in exact arithmetic.
\<close>

lemma round_half_even_minus: "round_half_even (- y) = - round_half_even y"
proof (cases "y \<in> \<int>")
  case True
  then obtain k where "y = of_int k" by (auto elim: Ints_cases)
  then show ?thesis by (simp add: round_half_even_def Let_def)
next
  case False
  have ne: "y \<noteq> of_int \<lfloor>y\<rfloor>" using False by (metis Ints_of_int)
  then have f: "\<lfloor>- y\<rfloor> = - \<lfloor>y\<rfloor> - 1"
    by (simp add: floor_minus ceiling_altdef)
  have "of_int \<lfloor>y\<rfloor> \<le> y" and "y < of_int \<lfloor>y\<rfloor> + 1" by linarith+
  with ne have d: "0 < y - of_int \<lfloor>y\<rfloor>" "y - of_int \<lfloor>y\<rfloor> < 1" by linarith+
  show ?thesis
    unfolding round_half_even_def Let_def f using d
    by (auto simp: algebra_simps)
qed

lemma round_double_minus: "round_double (- x) = - round_double x"
  by (simp add: round_double_def double_exponent_def round_half_even_minus)


lemma float_payoff_sign:
  "ForwardContract_payoff_float (Contract_init kind und dtype SHORT strk exp' n) x =
     map_sum id uminus
       (ForwardContract_payoff_float (Contract_init kind und dtype LONG strk exp' n) x)"
  "EuropeanContract_payoff_float (Contract_init kind und dtype SHORT strk exp' n) x =
     map_sum id uminus
       (EuropeanContract_payoff_float (Contract_init kind und dtype LONG strk exp' n) x)"
  "AsianContract_payoff_float (Contract_init kind und dtype SHORT strk exp' n) x =
     map_sum id uminus
       (AsianContract_payoff_float (Contract_init kind und dtype LONG strk exp' n) x)"
  by (auto simp add: ForwardContract_payoff_float_def EuropeanContract_payoff_float_def
        AsianContract_payoff_float_def Contract_init_def float_mul_def round_double_minus
        split: price_input.splits sum.splits)

text \<open>The literals and the intermediate results of the fixtures.\<close>

lemma round_double_literals:
  "round_double (4 / 5) = 7205759403792794 / 2 ^ 53"
  "round_double (1 / 5) = 3602879701896397 / 2 ^ 54"
  by code_simp+

lemma round_double_exact:
  "round_double 1 = 1"
  "round_double (1 / 2) = 1 / 2"
  "round_double (- (1 / 2)) = - (1 / 2)"
  "round_double (3 / 2) = 3 / 2"
  "round_double (1 - 7205759403792794 / 2 ^ 53) = 1801439850948198 / 2 ^ 53"
  "round_double (1801439850948198 / 2 ^ 53) = 1801439850948198 / 2 ^ 53"
  "round_double (900719925474099 / 4503599627370496) = 900719925474099 / 4503599627370496"
  by code_simp+

section \<open>Reference fixtures\<close>

text \<open>
  In exact arithmetic the payoff of the Asian fixture is 0.2, the mean 1 less the strike.
\<close>

lemma asian_fixture_exact:
  "AsianContract_payoff (Contract_init ASIANOPTION und CALL LONG 0.8 2 1)
     (Prices [-1, -0.5, 0, 0.5, 1, 1.5, 2, 2.5, 3]) = Inr 0.2"
  by (simp add: AsianContract_payoff_def mean_def)

text \<open>
  C8, as amended. On floats, a short forward with strike 1 and expiry 2 pays 0.5 at price
  0.5, and a long European call with strike 1 and expiry 2 pays 1.5 at price 2.5. A long
  Asian call with strike 0.8 and expiry 2 has \<open>num_mon\<close> 1 (the constructor takes no
  \<open>num_mon\<close>); the mean of the nine prices from -1 to 3 in steps of 0.5 is 1, and the
  payoff on them is the float \<open>1.0 - 0.8\<close>, which is \<open>1801439850948198 / 2 ^ 53\<close>, printed
  0.19999999999999996 by Python. It lies \<open>1 / 2 ^ 54\<close> below the float of the literal 0.2
  and less than that from the real number 0.2.
\<close>

theorem reference_fixtures:
  "(\<exists>c. ForwardContract und SHORT 1 2 = Inr c \<and>
        ForwardContract_payoff_float c (Spot 0.5) = Inr 0.5) \<and>
   (\<exists>c. EuropeanContract und CALL LONG 1 2 = Inr c \<and>
        EuropeanContract_payoff_float c (Spot 2.5) = Inr 1.5) \<and>
   (\<exists>c. AsianContract und CALL LONG (round_double 0.8) 2 = Inr c \<and> num_mon c = 1 \<and>
        mean_float [-1, -0.5, 0, 0.5, 1, 1.5, 2, 2.5, 3] = Inr 1 \<and>
        AsianContract_payoff_float c (Prices [-1, -0.5, 0, 0.5, 1, 1.5, 2, 2.5, 3]) =
          Inr (1801439850948198 / 2 ^ 53)) \<and>
   round_double 0.19999999999999996 = 1801439850948198 / 2 ^ 53 \<and>
   round_double 0.2 = 1801439850948198 / 2 ^ 53 + 1 / 2 ^ 54 \<and>
   \<bar>1801439850948198 / 2 ^ 53 - 0.2\<bar> < (1 / 2 ^ 54 :: real)"
proof (intro conjI)
  show "\<exists>c. ForwardContract und SHORT 1 2 = Inr c \<and>
        ForwardContract_payoff_float c (Spot 0.5) = Inr 0.5"
    by (simp add: ForwardContract_def ForwardContract_payoff_float_def Contract_init_def
          float_sub_def float_mul_def round_double_exact)
  show "\<exists>c. EuropeanContract und CALL LONG 1 2 = Inr c \<and>
        EuropeanContract_payoff_float c (Spot 2.5) = Inr 1.5"
    by (simp add: EuropeanContract_def EuropeanContract_payoff_float_def Contract_init_def
          float_sub_def float_mul_def round_double_exact)
  show "\<exists>c. AsianContract und CALL LONG (round_double 0.8) 2 = Inr c \<and> num_mon c = 1 \<and>
        mean_float [-1, -0.5, 0, 0.5, 1, 1.5, 2, 2.5, 3] = Inr 1 \<and>
        AsianContract_payoff_float c (Prices [-1, -0.5, 0, 0.5, 1, 1.5, 2, 2.5, 3]) =
          Inr (1801439850948198 / 2 ^ 53)"
    by (simp add: AsianContract_def AsianContract_payoff_float_def Contract_init_def mean_float_def
          float_sub_def float_mul_def round_double_literals round_double_exact)
  show "round_double 0.19999999999999996 = 1801439850948198 / 2 ^ 53"
    by code_simp
  show "round_double 0.2 = 1801439850948198 / 2 ^ 53 + 1 / 2 ^ 54"
    by code_simp
  show "\<bar>1801439850948198 / 2 ^ 53 - 0.2\<bar> < (1 / 2 ^ 54 :: real)"
    by simp
qed

text \<open>
  C8 as first stated, with \<open>num_mon\<close> 9 and the payoff 0.2, fails twice: the Asian
  contract of \<open>main\<close> does not have \<open>num_mon\<close> 9, and its payoff on the nine prices is not
  the float of the literal 0.2.
\<close>

theorem reference_fixtures_counterexample:
  "AsianContract ''Microsoft'' CALL LONG (round_double 0.8) 2 =
     Inr (Contract_init ASIANOPTION ''Microsoft'' CALL LONG (round_double 0.8) 2 1) \<and>
   num_mon (Contract_init ASIANOPTION ''Microsoft'' CALL LONG (round_double 0.8) 2 1) \<noteq> 9 \<and>
   AsianContract_payoff_float
     (Contract_init ASIANOPTION ''Microsoft'' CALL LONG (round_double 0.8) 2 1)
     (Prices [-1, -0.5, 0, 0.5, 1, 1.5, 2, 2.5, 3]) \<noteq> Inr (round_double 0.2)"
  by (simp add: AsianContract_def AsianContract_payoff_float_def Contract_init_def mean_float_def
          float_sub_def float_mul_def round_double_literals round_double_exact)

section \<open>Volatility lookup\<close>

text \<open>
  C9. \<open>BSVolModel.get_vol\<close> returns the same result for any two pairs of strike and
  expiry: it looks the grid up at the model's spot and the expiry 1.
\<close>

theorem get_vol_noninterference:
  "BSVolModel_get_vol grid_get_vol m strike1 expiry1 =
     BSVolModel_get_vol grid_get_vol m strike2 expiry2 \<and>
   BSVolModel_get_vol grid_get_vol m strike1 expiry1 =
     first_vol (grid_get_vol (volgrid m) [(spot m, 1)])"
  by (simp add: BSVolModel_get_vol_def)

text \<open>
  The lookup of \<open>FlatVolModel\<close> does depend on its arguments.
\<close>

lemma FlatVolModel_depends:
  "FlatVolModel_get_vol (\<lambda>g. map fst) m 1 1 \<noteq> FlatVolModel_get_vol (\<lambda>g. map fst) m 2 1"
  by (simp add: FlatVolModel_get_vol_def first_vol_def)

section \<open>Generic contracts of derivative type FWD\<close>

text \<open>
  C10. A \<open>GenericContract\<close> can be constructed with derivative type FWD and any kind;
  for the kinds EUROPEANOPTION, AMERICANOPTION, EUROPEANDIGITALOPTION and ASIANOPTION its
  \<open>payoff\<close> then returns \<open>None\<close> on every price input.
\<close>

theorem generic_payoff_not_total:
  "kind \<in> {EUROPEANOPTION, AMERICANOPTION, EUROPEANDIGITALOPTION, ASIANOPTION} \<Longrightarrow>
   \<exists>g. GenericContract kind und FWD longshort strk exp' barr ud io = Inr g \<and>
       (\<forall>x. GenericContract_payoff g x = Inr None)"
  by (auto simp: GenericContract_Inr GenericContract_payoff_def)

theorem generic_payoff_not_total_witness:
  "GenericContract EUROPEANOPTION ''OTP'' FWD LONG 1 2 PosInf None None =
     Inr (Contract.extend (Contract_init EUROPEANOPTION ''OTP'' FWD LONG 1 2 1)
            (BarrierContract.fields PosInf None None)) \<and>
   GenericContract_payoff
     (Contract.extend (Contract_init EUROPEANOPTION ''OTP'' FWD LONG 1 2 1)
        (BarrierContract.fields PosInf None None)) (Spot 2.5) = Inr None"
proof -
  have k: "EUROPEANOPTION \<in> {EUROPEANOPTION, AMERICANOPTION, EUROPEANDIGITALOPTION, ASIANOPTION}"
    by simp
  have g: "GenericContract EUROPEANOPTION ''OTP'' FWD LONG 1 2 PosInf None None =
     Inr (Contract.extend (Contract_init EUROPEANOPTION ''OTP'' FWD LONG 1 2 1)
            (BarrierContract.fields PosInf None None))"
    by (simp add: GenericContract_def)
  from generic_payoff_not_total [OF k, of "''OTP''" LONG 1 2 PosInf None None] g
  show ?thesis by auto
qed

end
